theory Spec2Isabelle
  imports Main "HOL-Library.AList"
begin

text \<open>
  The adapter of \<^verbatim>\<open>practice_fusion_integrations.py\<close> and the request models of
  \<^verbatim>\<open>models/models.py\<close>, as functions. A method keeps its name, without the leading
  underscore of a private one; \<^verbatim>\<open>self\<close> is the first argument. Strings are lists of
  characters with codes below 256.
\<close>

section \<open>Python values\<close>

text \<open>
  A \<^verbatim>\<open>datetime\<close> is a point on the wall clock, counted in microseconds since
  0001-01-01T00:00:00, together with its \<^verbatim>\<open>tzinfo\<close>: \<open>None\<close> for a naive value,
  otherwise the offset from UTC in minutes.
\<close>

record datetime =
  ticks :: int
  utcoffset :: "int option"

text \<open>
  Parsed response bodies are JSON. Numbers are kept as integers: no operation of the
  adapter computes with a number it received. A dict is an association list in
  insertion order with distinct keys.
\<close>

datatype json =
    JNull
  | JBool bool
  | JInt int
  | JStr string
  | JArr "json list"
  | JObj "(string \<times> json) list"

text \<open>
  A \<^verbatim>\<open>str\<close> assembled by an f-string or by a formatter of \<^verbatim>\<open>datetime\<close> is kept as
  the sequence of its pieces: literal characters, \<^verbatim>\<open>str(v)\<close> of a received value,
  \<^verbatim>\<open>s.upper()\<close> of a string \<open>s\<close>, whose capitals are not all below 256, and
  \<^verbatim>\<open>d.isoformat()\<close> and \<^verbatim>\<open>d.strftime(fmt)\<close> of a datetime \<open>d\<close>.
\<close>

datatype piece =
    Lit string
  | StrOf json
  | Upper string
  | Isoformat datetime
  | Strftime string datetime

text \<open>What the adapter sends and returns: received values, assembled text, and dict
  literals over both.\<close>

datatype pyval =
    Json json
  | Text "piece list"
  | PDict "(string \<times> pyval) list"

abbreviation S :: "string \<Rightarrow> pyval" where
  "S s \<equiv> Json (JStr s)"

abbreviation PNone :: pyval where
  "PNone \<equiv> Json JNull"

abbreviation B :: "bool \<Rightarrow> pyval" where
  "B b \<equiv> Json (JBool b)"

datatype error =
    HTTPException int pyval
  | IntegrationAPIError string "piece list" int json
  | KeyError string
  | TypeError
  | AttributeError
  | IndexError
  | OverflowError

text \<open>Sequencing of expressions that may raise.\<close>

definition and_then :: "error + 'a \<Rightarrow> ('a \<Rightarrow> error + 'b) \<Rightarrow> error + 'b" where
  "and_then r f = (case r of Inl e \<Rightarrow> Inl e | Inr x \<Rightarrow> f x)"

text \<open>Truth value testing (\<^verbatim>\<open>if v\<close>, \<^verbatim>\<open>not v\<close>, \<^verbatim>\<open>any\<close>).\<close>

fun py_truthy :: "json \<Rightarrow> bool" where
  "py_truthy JNull = False"
| "py_truthy (JBool b) = b"
| "py_truthy (JInt n) = (n \<noteq> 0)"
| "py_truthy (JStr s) = (s \<noteq> [])"
| "py_truthy (JArr xs) = (xs \<noteq> [])"
| "py_truthy (JObj kvs) = (kvs \<noteq> [])"

definition truthy_str :: "string option \<Rightarrow> bool" where
  "truthy_str v = (case v of None \<Rightarrow> False | Some s \<Rightarrow> s \<noteq> [])"

text \<open>\<^verbatim>\<open>v[k]\<close> with a \<^verbatim>\<open>str\<close> key: only a dict can be subscripted so.\<close>

fun py_getitem :: "json \<Rightarrow> string \<Rightarrow> error + json" where
  "py_getitem (JObj kvs) k =
     (case map_of kvs k of None \<Rightarrow> Inl (KeyError k) | Some v \<Rightarrow> Inr v)"
| "py_getitem _ k = Inl TypeError"

text \<open>\<^verbatim>\<open>v[0]\<close>. A dict parsed from JSON has \<^verbatim>\<open>str\<close> keys only, so the key \<open>0\<close> is
  missing from it.\<close>

fun py_getitem0 :: "json \<Rightarrow> error + json" where
  "py_getitem0 (JArr []) = Inl IndexError"
| "py_getitem0 (JArr (x # xs)) = Inr x"
| "py_getitem0 (JStr []) = Inl IndexError"
| "py_getitem0 (JStr (c # cs)) = Inr (JStr [c])"
| "py_getitem0 (JObj kvs) = Inl (KeyError ''0'')"
| "py_getitem0 _ = Inl TypeError"

text \<open>\<^verbatim>\<open>v.get(k, default)\<close>: a method of dicts only.\<close>

fun py_get :: "json \<Rightarrow> string \<Rightarrow> json \<Rightarrow> error + json" where
  "py_get (JObj kvs) k dflt = (case map_of kvs k of None \<Rightarrow> Inr dflt | Some v \<Rightarrow> Inr v)"
| "py_get _ k dflt = Inl AttributeError"

fun py_len :: "json \<Rightarrow> error + nat" where
  "py_len (JArr xs) = Inr (length xs)"
| "py_len (JObj kvs) = Inr (length kvs)"
| "py_len (JStr s) = Inr (length s)"
| "py_len _ = Inl TypeError"

text \<open>\<^verbatim>\<open>for item in v\<close>: the elements of a list, the keys of a dict, the characters of a
  \<^verbatim>\<open>str\<close>.\<close>

fun py_iter :: "json \<Rightarrow> error + json list" where
  "py_iter (JArr xs) = Inr xs"
| "py_iter (JObj kvs) = Inr (map (\<lambda>kv. JStr (fst kv)) kvs)"
| "py_iter (JStr s) = Inr (map (\<lambda>c. JStr [c]) s)"
| "py_iter _ = Inl TypeError"

text \<open>The lower-case form of a character with a code below 256: the letters A to Z and
  the capital letters from 192 to 222, of which 215 is the multiplication sign, are 32
  below their small letters.\<close>

definition lower_char :: "char \<Rightarrow> char" where
  "lower_char c =
     (let n = (of_char c :: nat)
      in if (65 \<le> n \<and> n \<le> 90) \<or> (192 \<le> n \<and> n \<le> 222 \<and> n \<noteq> 215) then char_of (n + 32)
         else c)"

text \<open>\<^verbatim>\<open>v.lower()\<close>: a method of \<^verbatim>\<open>str\<close> only.\<close>

fun py_lower :: "json \<Rightarrow> error + string" where
  "py_lower (JStr s) = Inr (map lower_char s)"
| "py_lower _ = Inl AttributeError"

text \<open>\<^verbatim>\<open>next((x for x in xs if p(x)), None)\<close>: the first element that passes the test,
  \<^verbatim>\<open>None\<close> when there is none; an exception raised by the test on an element reached
  before a match propagates.\<close>

fun py_next :: "(json \<Rightarrow> error + bool) \<Rightarrow> json list \<Rightarrow> error + json" where
  "py_next p [] = Inr JNull"
| "py_next p (x # xs) =
     (case p x of
        Inl e \<Rightarrow> Inl e
      | Inr t \<Rightarrow> if t then Inr x else py_next p xs)"

text \<open>\<^verbatim>\<open>str(n)\<close> of an integer.\<close>

fun digits :: "nat \<Rightarrow> string" where
  "digits n =
     (if n < 10 then [''0123456789'' ! n]
      else digits (n div 10) @ [''0123456789'' ! (n mod 10)])"

declare digits.simps [simp del]

definition str_int :: "int \<Rightarrow> string" where
  "str_int i = (if i < 0 then CHR ''-'' # digits (nat (- i)) else digits (nat i))"

text \<open>\<^verbatim>\<open>s.split()\<close>: the maximal runs of characters that are not whitespace.\<close>

definition is_space :: "char \<Rightarrow> bool" where
  "is_space c = (of_char c \<in> {9, 10, 11, 12, 13, 28, 29, 30, 31, 32, 133, 160 :: nat})"

fun split_from :: "string \<Rightarrow> string \<Rightarrow> string list" where
  "split_from cur [] = (if cur = [] then [] else [cur])"
| "split_from cur (c # cs) =
     (if is_space c then (if cur = [] then split_from [] cs else cur # split_from [] cs)
      else split_from (cur @ [c]) cs)"

definition py_split :: "string \<Rightarrow> string list" where
  "py_split s = split_from [] s"

definition first_token :: "string \<Rightarrow> error + string" where
  "first_token s = (case py_split s of [] \<Rightarrow> Inl IndexError | w # ws \<Rightarrow> Inr w)"

definition last_token :: "string \<Rightarrow> error + string" where
  "last_token s = (case py_split s of [] \<Rightarrow> Inl IndexError | w # ws \<Rightarrow> Inr (last (w # ws)))"


section \<open>The transport\<close>

text \<open>
  Modelled from the spec: the table \<^verbatim>\<open>PF_URLS_MAP\<close> of the remote endpoints is imported
  from a module that is not among the sources. Each key of the table the adapter uses is
  a constructor here, and the values that \<^verbatim>\<open>str.format\<close> or an f-string puts into the
  URL are its arguments.
\<close>

datatype endpoint =
    AppointmentTypes
  | SearchPatient
  | Provider
  | Facility
  | Conflicts
  | CreateAppointment
  | CombinedEvent
  | EncounterEventType
  | CreateTranscripts json
  | HealthConcern json
  | HealthConcernOf json json
  | HealthConcerns json
  | UpdateTranscript json json
  | TranscriptEvents json json
  | UpdateCarePlan json json
  | SearchDrug string
  | DrugInteractions json
  | AddMedication json json
  | AddTranscriptMedication json json
  | TranscriptSummaries json

text \<open>One outbound request: the method, the URL, and the keyword arguments
  \<^verbatim>\<open>params\<close>, \<^verbatim>\<open>json\<close> and \<^verbatim>\<open>headers\<close>.\<close>

record call =
  meth :: string
  url :: endpoint
  params :: "pyval option"
  payload :: "pyval option"
  headers :: json

text \<open>What \<^verbatim>\<open>aiohttp\<close> hands to \<^verbatim>\<open>_handle_response\<close>: the status, and the body as
  \<^verbatim>\<open>response.json()\<close> parses it, \<open>None\<close> when that call raises.\<close>

record response =
  status :: int
  body :: "json option"

text \<open>
  The adapter instance and its surroundings. The remote system answers a request
  depending on the requests made before it; \<open>network_requester\<close> is the injected
  requester, \<open>session\<close> the \<^verbatim>\<open>aiohttp\<close> session used without one, and \<open>clock\<close> what
  \<^verbatim>\<open>datetime.now\<close> returns after the given number of requests.
\<close>

record env =
  integration_name :: string
  user_agent :: string
  cookies :: string
  bearer_auth :: string
  network_requester :: "(call list \<Rightarrow> call \<Rightarrow> error + json) option"
  session :: "call list \<Rightarrow> call \<Rightarrow> response"
  clock :: "nat \<Rightarrow> datetime"

text \<open>
  A coroutine of the adapter runs against the list of requests made so far and returns
  its result, or the exception it raised, with the list extended by its own requests.
\<close>

type_synonym 'a io = "call list \<Rightarrow> (error + 'a) \<times> call list"

definition io_return :: "'a \<Rightarrow> 'a io" where
  "io_return x tr = (Inr x, tr)"

definition io_raise :: "error \<Rightarrow> 'a io" where
  "io_raise e tr = (Inl e, tr)"

definition io_lift :: "error + 'a \<Rightarrow> 'a io" where
  "io_lift r tr = (r, tr)"

definition io_bind :: "'a io \<Rightarrow> ('a \<Rightarrow> 'b io) \<Rightarrow> 'b io" where
  "io_bind m f tr = (case m tr of (Inl e, tr') \<Rightarrow> (Inl e, tr') | (Inr x, tr') \<Rightarrow> f x tr')"

text \<open>The body that stands in for one that cannot be parsed (lines 93-95).\<close>

definition synthetic_error_body :: "int \<Rightarrow> json" where
  "synthetic_error_body st =
     JObj [(''error'', JObj [(''message'', JStr ''Unknown error''), (''code'', JStr (str_int st))])]"

text \<open>\<^verbatim>\<open>_handle_response\<close> (lines 75-122). Returning without a value returns \<^verbatim>\<open>None\<close>.\<close>

definition handle_response :: "env \<Rightarrow> response \<Rightarrow> error + json" where
  "handle_response self r =
     (let response_json =
            (case body r of Some j \<Rightarrow> j | None \<Rightarrow> synthetic_error_body (status r))
      in if 200 \<le> status r \<and> status r < 204 then Inr response_json
         else if status r = 204 then Inr JNull
         else
           and_then (py_get response_json ''error'' (JObj [])) (\<lambda>err1.
           and_then (py_get err1 ''message'' (JStr ''Unknown error'')) (\<lambda>error_message.
           and_then (py_get response_json ''error'' (JObj [])) (\<lambda>err2.
           and_then (py_get err2 ''code'' (JStr (str_int (status r)))) (\<lambda>error_code.
             if status r \<ge> 400 \<and> status r < 500
             then Inl (HTTPException (status r) (Json response_json))
             else if status r \<ge> 500
             then Inl (IntegrationAPIError (integration_name self)
                        [Lit ''Downstream server error (translated to HTTP 501): '',
                         StrOf error_message]
                        501 error_code)
             else Inl (IntegrationAPIError (integration_name self)
                        [StrOf error_message, Lit '' (HTTP '', Lit (str_int (status r)),
                         Lit '')'']
                        (status r) error_code))))))"

text \<open>\<^verbatim>\<open>_make_request\<close> (lines 55-73): with a requester, its answer is returned as it is; without
  one, the answer of the session goes through \<open>handle_response\<close>.\<close>

definition make_request :: "env \<Rightarrow> call \<Rightarrow> json io" where
  "make_request self c tr =
     (case network_requester self of
        Some requester \<Rightarrow> (requester tr c, tr @ [c])
      | None \<Rightarrow> (handle_response self (session self tr c), tr @ [c]))"

text \<open>\<^verbatim>\<open>_setup_headers\<close> (lines 124-137); the value of \<^verbatim>\<open>Sec-Ch-Ua\<close> has single quotes
  in it.\<close>

definition sec_ch_ua :: string where
  "sec_ch_ua =
     [CHR 0x27] @ ''Chromium'' @ [CHR 0x27] @ '';v='' @ [CHR 0x27] @ ''134'' @ [CHR 0x27]
     @ '', '' @ [CHR 0x27] @ ''Not:A-Brand'' @ [CHR 0x27] @ '';v='' @ [CHR 0x27] @ ''24''
     @ [CHR 0x27] @ '', '' @ [CHR 0x27] @ ''Google Chrome'' @ [CHR 0x27] @ '';v=''
     @ [CHR 0x27] @ ''134'' @ [CHR 0x27]"

definition setup_headers :: "env \<Rightarrow> json" where
  "setup_headers self =
     JObj [(''User-Agent'', JStr (user_agent self)),
           (''Cookie'', JStr (cookies self)),
           (''Authorization'', JStr (bearer_auth self)),
           (''Sec-Ch-Ua'', JStr sec_ch_ua)]"

text \<open>The request with the given method, URL, \<^verbatim>\<open>params\<close>, \<^verbatim>\<open>json\<close> and \<^verbatim>\<open>headers\<close>.\<close>

definition request :: "string \<Rightarrow> endpoint \<Rightarrow> pyval option \<Rightarrow> pyval option \<Rightarrow> json \<Rightarrow> call" where
  "request m u ps js hs = \<lparr>meth = m, url = u, params = ps, payload = js, headers = hs\<rparr>"

section \<open>The request models\<close>

text \<open>The literals of \<^verbatim>\<open>AppointmentRequest.appointmentType\<close> (models.py, lines 42-50).\<close>

datatype appointment_type =
    Wellness_Exam
  | Follow_Up_Visit
  | Nursing_Only
  | Urgent_Visit
  | New_Patient_Visit
  | Video_Visit
  | Procedure

fun appointment_type_name :: "appointment_type \<Rightarrow> string" where
  "appointment_type_name Wellness_Exam = ''Wellness Exam''"
| "appointment_type_name Follow_Up_Visit = ''Follow-Up Visit''"
| "appointment_type_name Nursing_Only = ''Nursing Only''"
| "appointment_type_name Urgent_Visit = ''Urgent Visit''"
| "appointment_type_name New_Patient_Visit = ''New Patient Visit''"
| "appointment_type_name Video_Visit = ''Video Visit''"
| "appointment_type_name Procedure = ''Procedure''"

record PatientSchedulerParticipant =
  participant_chiefComplaint :: string
  firstName :: string
  lastName :: string

record AppointmentRequest =
  facilityName :: "string option"
  appointmentType :: appointment_type
  schedulerEventParticipants :: "PatientSchedulerParticipant list"
  lastModifiedByProvider :: "string option"
  startAtDateTimeUtc :: datetime
  endAtDateTimeUtc :: "datetime option"
  insuranceCoverageTypeCode :: "string option"
  paymentDate :: "datetime option"

text \<open>\<^verbatim>\<open>datetime.max\<close> is 9999-12-31T23:59:59.999999, the last microsecond of day
  3652059.\<close>

definition datetime_max_ticks :: int where
  "datetime_max_ticks = 3652059 * 86400000000 - 1"

definition timedelta_minutes :: "int \<Rightarrow> int" where
  "timedelta_minutes m = m * 60000000"

text \<open>\<^verbatim>\<open>d + delta\<close>: the wall clock moves, the \<^verbatim>\<open>tzinfo\<close> stays; a result outside
  \<^verbatim>\<open>datetime.min .. datetime.max\<close> raises.\<close>

definition datetime_add :: "datetime \<Rightarrow> int \<Rightarrow> error + datetime" where
  "datetime_add d delta =
     (let t = ticks d + delta
      in if 0 \<le> t \<and> t \<le> datetime_max_ticks then Inr (d\<lparr>ticks := t\<rparr>)
         else Inl OverflowError)"

text \<open>\<^verbatim>\<open>a <= b\<close>: two naive values compare by the wall clock, two aware ones by their
  UTC instants, and a naive with an aware one raises.\<close>

definition datetime_le :: "datetime \<Rightarrow> datetime \<Rightarrow> error + bool" where
  "datetime_le a b =
     (case (utcoffset a, utcoffset b) of
        (None, None) \<Rightarrow> Inr (ticks a \<le> ticks b)
      | (Some oa, Some ob) \<Rightarrow>
          Inr (ticks a - timedelta_minutes oa \<le> ticks b - timedelta_minutes ob)
      | _ \<Rightarrow> Inl TypeError)"

text \<open>
  \<^verbatim>\<open>AppointmentRequest.__init__\<close>, after \<^verbatim>\<open>super().__init__(**data)\<close> has validated the
  fields and filled in their defaults: the argument is the model as it stands then. A
  \<^verbatim>\<open>datetime\<close> is never false, so only \<^verbatim>\<open>None\<close> passes the test.
\<close>

definition AppointmentRequest_init :: "AppointmentRequest \<Rightarrow> error + AppointmentRequest" where
  "AppointmentRequest_init self =
     (case endAtDateTimeUtc self of
        Some e \<Rightarrow> Inr self
      | None \<Rightarrow>
          and_then (datetime_add (startAtDateTimeUtc self) (timedelta_minutes 30))
            (\<lambda>e. Inr (self\<lparr>endAtDateTimeUtc := Some e\<rparr>)))"

text \<open>\<^verbatim>\<open>MedicationRequest\<close> and \<^verbatim>\<open>PatientTranscriptRequest\<close> (models.py, lines 101-130), with the
  literals of \<^verbatim>\<open>eventDisplayName\<close>.\<close>

record MedicationRequest =
  searchCriteria :: string
  drugNameOrNdc :: string

datatype encounter_type =
    Office_Visit
  | Nurse_Visit
  | Telemedicine_Visit
  | Home_Visit
  | Orders_Only
  | Nursing_Home_Visit
  | Email_Encounter
  | Letter

fun encounter_type_name :: "encounter_type \<Rightarrow> string" where
  "encounter_type_name Office_Visit = ''Office Visit''"
| "encounter_type_name Nurse_Visit = ''Nurse Visit''"
| "encounter_type_name Telemedicine_Visit = ''Telemedicine Visit''"
| "encounter_type_name Home_Visit = ''Home Visit''"
| "encounter_type_name Orders_Only = ''Orders Only''"
| "encounter_type_name Nursing_Home_Visit = ''Nursing Home Visit''"
| "encounter_type_name Email_Encounter = ''Email Encounter''"
| "encounter_type_name Letter = ''Letter''"

record PatientTranscriptRequest =
  patientNameOrParticipantGuid :: string
  transcriptGuid :: "string option"
  facilityNameOrGuid :: "string option"
  eventDisplayName :: "encounter_type option"
  healthConcernNote :: "string option"
  chiefComplaint :: "string option"
  subjectiveNote :: "string option"
  objectiveNote :: "string option"
  assessmentNote :: "string option"
  planNote :: "string option"
  carePlanNotes :: "string option"
  medication :: "MedicationRequest list option"
  providerNameOrGuid :: "string option"

text \<open>A \<^verbatim>\<open>str\<close> or \<^verbatim>\<open>None\<close> as a value.\<close>

definition opt_str :: "string option \<Rightarrow> json" where
  "opt_str v = (case v of None \<Rightarrow> JNull | Some s \<Rightarrow> JStr s)"

section \<open>Helper methods\<close>

text \<open>\<^verbatim>\<open>is_guid\<close> (lines 600-601).\<close>

definition is_guid :: "string \<Rightarrow> bool" where
  "is_guid v = (length v = 36 \<and> count_list v (CHR ''-'') = 4)"


text \<open>The test of a lookup by name.\<close>

definition field_equals :: "string \<Rightarrow> string \<Rightarrow> json \<Rightarrow> error + bool" where
  \<comment> \<open>\<^verbatim>\<open>item[key] == name\<close>\<close>
  "field_equals key name item = and_then (py_getitem item key) (\<lambda>v. Inr (v = JStr name))"

text \<open>\<^verbatim>\<open>get_participant_guid_from_name\<close> (lines 603-621).\<close>

definition get_participant_guid_from_name :: "env \<Rightarrow> string \<Rightarrow> string \<Rightarrow> json \<Rightarrow> json io" where
  "get_participant_guid_from_name self firstname lastname hdrs =
     io_bind (make_request self
                (request ''POST'' SearchPatient None
                   (Some (PDict [(''matchAll'', B True), (''firstName'', S firstname),
                                 (''lastName'', S lastname)]))
                   hdrs)) (\<lambda>resp.
     io_bind (io_lift (and_then (py_get resp ''patients'' JNull) py_len)) (\<lambda>n.
     if n < 1 then io_raise (HTTPException 404 (S ''Patient not found.''))
     else io_lift (and_then (py_getitem resp ''patients'') (\<lambda>ps.
                   and_then (py_getitem0 ps) (\<lambda>p. py_getitem p ''patientPracticeGuid'')))))"

text \<open>\<^verbatim>\<open>get_facility_guid_from_name\<close> (lines 623-632).\<close>

definition get_facility_guid_from_name :: "env \<Rightarrow> string \<Rightarrow> json \<Rightarrow> json io" where
  "get_facility_guid_from_name self facilityname hdrs =
     io_bind (make_request self (request ''GET'' Facility None None hdrs)) (\<lambda>resp.
     io_bind (io_lift (and_then (py_iter resp) (py_next (field_equals ''name'' facilityname))))
       (\<lambda>facility.
     if \<not> py_truthy facility then io_raise (HTTPException 404 (S ''Facility not found.''))
     else io_lift (py_getitem facility ''facilityGuid'')))"

text \<open>\<^verbatim>\<open>get_encounter_guid_from_display_name\<close> (lines 634-647).\<close>

definition default_encounter_guid :: string where
  "default_encounter_guid = ''9381cfbf-373b-418e-812c-e44b97835be4''"

text \<open>The test of the encounter-type search: \<^verbatim>\<open>e["displayName"] == displayName\<close>, where
  the name may be \<^verbatim>\<open>None\<close>.\<close>

definition display_name_equals :: "json \<Rightarrow> json \<Rightarrow> error + bool" where
  "display_name_equals displayName e =
     and_then (py_getitem e ''displayName'') (\<lambda>d. Inr (d = displayName))"

definition get_encounter_guid_from_display_name :: "env \<Rightarrow> json \<Rightarrow> json \<Rightarrow> json io" where
  "get_encounter_guid_from_display_name self displayName hdrs =
     io_bind (make_request self (request ''GET'' EncounterEventType None None hdrs)) (\<lambda>resp.
     io_bind (io_lift (and_then (py_get resp ''events'' (JArr [])) (\<lambda>events.
                       and_then (py_iter events) (py_next (display_name_equals displayName)))))
       (\<lambda>event.
     if py_truthy event then io_lift (py_getitem event ''eventTypeGuid'')
     else io_return (JStr default_encounter_guid)))"

text \<open>\<^verbatim>\<open>datetime.now\<close>: a reading of the clock, no request.\<close>

definition now :: "env \<Rightarrow> datetime io" where
  "now self tr = (Inr (clock self (length tr)), tr)"

text \<open>\<^verbatim>\<open>create_transcript\<close> (lines 649-665).\<close>

definition create_transcript :: "env \<Rightarrow> json \<Rightarrow> json \<Rightarrow> json \<Rightarrow> json \<Rightarrow> json io" where
  "create_transcript self encounter_guid participant_guid facility_guid hdrs =
     io_bind (now self) (\<lambda>today.
     make_request self
       (request ''POST'' (CreateTranscripts participant_guid) None
          (Some (PDict [(''encounterTypeEncounterEventTypeGuid'', Json encounter_guid),
                        (''facilityGuid'', Json facility_guid),
                        (''dateOfServiceLocal'', Text [Isoformat today])]))
          hdrs))"

text \<open>\<^verbatim>\<open>create_health_concern\<close> (lines 667-709).\<close>

definition create_health_concern :: "env \<Rightarrow> json \<Rightarrow> string \<Rightarrow> json \<Rightarrow> unit io" where
  "create_health_concern self patient_practice_guid note hdrs =
     (let concern = [(''patientPracticeGuid'', Json patient_practice_guid),
                    (''healthConcernType'', S ''Note''),
                    (''healthConcernNote'', S note)]
      in
      io_bind (make_request self
                 (request ''GET'' (HealthConcerns patient_practice_guid) None None hdrs))
        (\<lambda>health_concern_data.
      io_bind (io_lift
                 (and_then (py_get health_concern_data ''patientHealthConcerns'' JNull) (\<lambda>v.
                  if py_truthy v
                  then and_then (py_get health_concern_data ''patientHealthConcerns'' JNull)
                         (\<lambda>w. and_then (py_len w) (\<lambda>n. Inr (n > 0)))
                  else Inr False)))
        (\<lambda>has_concern.
      if has_concern
      then
        io_bind (io_lift
                   (and_then (py_getitem health_concern_data ''patientHealthConcerns'') (\<lambda>cs.
                    and_then (py_getitem0 cs) (\<lambda>c. py_getitem c ''patientHealthConcernGuid''))))
          (\<lambda>guid.
        io_bind (make_request self
                   (request ''PUT'' (HealthConcernOf patient_practice_guid guid) None
                      (Some (PDict (concern @ [(''patientHealthConcernGuid'', Json guid)])))
                      hdrs))
          (\<lambda>_. io_return ()))
      else
        io_bind (make_request self
                   (request ''POST'' (HealthConcern patient_practice_guid) None
                      (Some (PDict concern)) hdrs))
          (\<lambda>_. io_return ()))))"

text \<open>\<^verbatim>\<open>update_transcript_field\<close> (lines 711-730).\<close>

definition update_transcript_field ::
  "env \<Rightarrow> json \<Rightarrow> json \<Rightarrow> string \<Rightarrow> string \<Rightarrow> json \<Rightarrow> unit io" where
  "update_transcript_field self patient_practice_guid transcript_guid field v hdrs =
     io_bind (make_request self
                (request ''PATCH'' (UpdateTranscript patient_practice_guid transcript_guid)
                   None (Some (PDict [(field, S v)])) hdrs))
       (\<lambda>_. io_return ())"

text \<open>\<^verbatim>\<open>format_rich_text\<close> (lines 732-733); the markup has double quotes in it.\<close>

definition rich_text_open :: string where
  "rich_text_open = ''<div class='' @ [CHR 0x22] @ ''pf-rich-text'' @ [CHR 0x22] @ ''><p>''"

definition rich_text_close :: string where
  "rich_text_close = ''</p></div>''"

definition format_rich_text :: "string option \<Rightarrow> string option" where
  "format_rich_text text =
     (case text of
        None \<Rightarrow> None
      | Some t \<Rightarrow> if t = [] then None else Some (rich_text_open @ t @ rich_text_close))"

text \<open>\<^verbatim>\<open>d[k] = v\<close> and \<^verbatim>\<open>{**d, k: v}\<close>: the key keeps its place when the dict has it and
  is added at the end otherwise.\<close>

fun py_setitem :: "json \<Rightarrow> string \<Rightarrow> json \<Rightarrow> error + json" where
  "py_setitem (JObj kvs) k v = Inr (JObj (AList.update k v kvs))"
| "py_setitem _ k v = Inl TypeError"

text \<open>The test of the care-plan search:
  \<^verbatim>\<open>e["eventType"]["displayName"] == "Care plan"\<close>.\<close>

definition is_care_plan :: "json \<Rightarrow> error + bool" where
  "is_care_plan e =
     and_then (py_getitem e ''eventType'') (\<lambda>t.
     and_then (py_getitem t ''displayName'') (\<lambda>d. Inr (d = JStr ''Care plan'')))"

text \<open>\<^verbatim>\<open>update_care_plan_notes\<close> (lines 735-788). The event type that is changed is read again
  only in its changed form.\<close>

definition update_care_plan_notes :: "env \<Rightarrow> json \<Rightarrow> json \<Rightarrow> string \<Rightarrow> json \<Rightarrow> unit io" where
  "update_care_plan_notes self patient_practice_guid transcript_guid notes hdrs =
     io_bind (make_request self
                (request ''GET'' (TranscriptEvents patient_practice_guid transcript_guid)
                   None None hdrs)) (\<lambda>resp.
     io_bind (io_lift (and_then (py_get resp ''transcriptEvents'' JNull) (\<lambda>events.
                       and_then (py_iter events) (py_next is_care_plan))))
       (\<lambda>care_plan_event.
     if \<not> py_truthy care_plan_event
     then io_raise (HTTPException 404 (S ''Care plan event not found.''))
     else
       io_bind (io_lift (py_getitem care_plan_event ''eventType'')) (\<lambda>event_type.
       io_bind (io_lift (py_setitem event_type ''worksheetGuid'' JNull)) (\<lambda>event_type_data.
       io_bind (io_lift (py_getitem care_plan_event ''isNegated'')) (\<lambda>is_negated.
       io_bind (now self) (\<lambda>modified_at.
       io_bind (io_lift (py_getitem care_plan_event ''transcriptEventGuid''))
         (\<lambda>transcript_event_guid.
       io_bind (make_request self
                  (request ''PUT'' (UpdateCarePlan patient_practice_guid transcript_event_guid)
                     None
                     (Some (PDict
                        [(''causedByGuid'', PNone),
                         (''comments'', S (rich_text_open @ notes @ rich_text_close)),
                         (''dueDate'', PNone),
                         (''endDateTimeUtc'', PNone),
                         (''eventType'', Json event_type_data),
                         (''isNegated'', Json is_negated),
                         (''lastModifiedAt'', Text [Isoformat modified_at, Lit ''Z'']),
                         (''resultValue'', PNone),
                         (''startDateTimeUtc'', PNone),
                         (''status'', S ''Documented''),
                         (''transcriptEventGuid'', Json transcript_event_guid),
                         (''transcriptGuid'', Json transcript_guid)]))
                     hdrs))
         (\<lambda>_. io_return ()))))))))"


text \<open>The identifiers used when the caller names no provider or facility.\<close>

definition default_provider_guid :: string where
  "default_provider_guid = ''d744609f-1bab-4e11-89bd-680e8d19a397''"

definition default_facility_guid :: string where
  "default_facility_guid = ''68cc1f4c-0378-424f-9d12-e3ee0ab9b4be''"

definition default_practice_guid :: string where
  "default_practice_guid = ''f6f290f1-968a-4900-a7a0-5500ce2a30f7''"

text \<open>The test of the drug search:
  \<^verbatim>\<open>d["drugName"].lower() == med.drugNameOrNdc.lower() or d["ndc"] == med.drugNameOrNdc\<close>.\<close>

definition drug_matches :: "MedicationRequest \<Rightarrow> json \<Rightarrow> error + bool" where
  "drug_matches med d =
     and_then (py_getitem d ''drugName'') (\<lambda>name.
     and_then (py_lower name) (\<lambda>lowered.
     if lowered = map lower_char (drugNameOrNdc med) then Inr True
     else and_then (py_getitem d ''ndc'') (\<lambda>ndc. Inr (ndc = JStr (drugNameOrNdc med)))))"

text \<open>\<^verbatim>\<open>any(d.get(key) for key in keys)\<close>: stops at the first key with a true value.\<close>

fun any_get :: "json \<Rightarrow> string list \<Rightarrow> error + bool" where
  "any_get d [] = Inr False"
| "any_get d (k # ks) =
     and_then (py_get d k JNull) (\<lambda>v. if py_truthy v then Inr True else any_get d ks)"

definition alert_keys :: "string list" where
  "alert_keys = [''drugInteractionAlerts'', ''drugAllergyAlerts'', ''drugAlertErrors'']"

text \<open>The record of an added medication (lines 896-928); its subscripts are evaluated in the
  order of the dict.\<close>

definition medication_payload :: "json \<Rightarrow> json \<Rightarrow> json \<Rightarrow> json \<Rightarrow> error + pyval" where
  "medication_payload matched_drug patient_practice_guid transcript_guid provider_guid =
     and_then (py_getitem matched_drug ''doseForm'') (\<lambda>doseForm.
     and_then (py_getitem matched_drug ''drugName'') (\<lambda>drugName.
     and_then (py_getitem matched_drug ''genericName'') (\<lambda>genericName.
     and_then (py_getitem matched_drug ''isGeneric'') (\<lambda>isGeneric.
     and_then (py_getitem matched_drug ''isMedicalSupply'') (\<lambda>isMedicalSupply.
     and_then (py_getitem matched_drug ''ndc'') (\<lambda>ndc.
     and_then (py_getitem matched_drug ''productStrength'') (\<lambda>productStrength.
     and_then (py_getitem matched_drug ''route'') (\<lambda>route.
     and_then (py_getitem matched_drug ''rxNormCui'') (\<lambda>rxNormCui.
     and_then (py_getitem matched_drug ''tradeName'') (\<lambda>tradeName.
     Inr (PDict
       [(''controlledSubstanceSchedule'', PNone),
        (''createdByProviderGuid'', PNone),
        (''createdDateTimeUtc'', PNone),
        (''diagnosisGuid'', PNone),
        (''doseForm'', Json doseForm),
        (''drugName'', Json drugName),
        (''genericName'', Json genericName),
        (''isCompoundMedication'', B False),
        (''isGeneric'', Json isGeneric),
        (''isMedicalSupply'', Json isMedicalSupply),
        (''isPending'', B False),
        (''lastModifiedProviderGuid'', PNone),
        (''lastModifiedDateTimeUtc'', PNone),
        (''medicationComment'', PNone),
        (''medicationDiscontinuedReason'', PNone),
        (''medicationGuid'', PNone),
        (''ndc'', Json ndc),
        (''patientPracticeGuid'', Json patient_practice_guid),
        (''productStrength'', Json productStrength),
        (''providerGuid'', Json provider_guid),
        (''route'', Json route),
        (''rxNormCui'', Json rxNormCui),
        (''sig'', PDict [(''patientDescription'', PNone), (''professionalDescription'', PNone)]),
        (''source'', PNone),
        (''startDateTime'', PNone),
        (''stopDateTime'', PNone),
        (''tradeDisplayName'', PNone),
        (''tradeName'', Json tradeName),
        (''transcriptGuid'', Json transcript_guid),
        (''userGuid'', PNone),
        (''intent'', PNone)])))))))))))"

text \<open>The error of a failed screen (lines 882-894).\<close>

definition safety_block :: "json \<Rightarrow> json \<Rightarrow> json \<Rightarrow> json \<Rightarrow> error" where
  "safety_block drug_name interactions allergies alert_errors =
     HTTPException 400
       (PDict
          [(''message'',
            Text [Lit ''Potential drug interactions or allergies detected between patient and drug:'',
                  StrOf drug_name, Lit ''.'']),
           (''alerts'',
            PDict [(''drugInteractionAlerts'', Json interactions),
                   (''drugAllergyAlerts'', Json allergies),
                   (''drugAlertErrors'', Json alert_errors)])])"

text \<open>The body of the loop of \<^verbatim>\<open>process_medications\<close>, for one medication (lines 827-961).\<close>

definition process_medication ::
  "env \<Rightarrow> json \<Rightarrow> json \<Rightarrow> json \<Rightarrow> json \<Rightarrow> MedicationRequest \<Rightarrow> unit io" where
  "process_medication self patient_practice_guid transcript_guid provider_guid hdrs med =
     io_bind (make_request self
                (request ''GET'' (SearchDrug (searchCriteria med)) None None hdrs))
       (\<lambda>drug_data.
     io_bind (io_lift (and_then (py_iter drug_data) (py_next (drug_matches med))))
       (\<lambda>matched_drug.
     if \<not> py_truthy matched_drug
     then io_raise (HTTPException 404 (S (''No matching drug found for '' @ searchCriteria med)))
     else
       io_bind (io_lift (py_setitem matched_drug ''patientPracticeGuid'' patient_practice_guid))
         (\<lambda>drug_input.
       io_bind (make_request self
                  (request ''POST'' (DrugInteractions patient_practice_guid) None
                     (Some (PDict [(''drugInputs'', Json (JArr [drug_input]))])) hdrs))
         (\<lambda>interaction_data.
       io_bind (io_lift (any_get interaction_data alert_keys)) (\<lambda>alerted.
       if alerted
       then
         io_bind (io_lift (py_getitem matched_drug ''drugName'')) (\<lambda>drug_name.
         io_bind (io_lift (py_getitem interaction_data ''drugInteractionAlerts''))
           (\<lambda>interactions.
         io_bind (io_lift (py_getitem interaction_data ''drugAllergyAlerts'')) (\<lambda>allergies.
         io_bind (io_lift (py_getitem interaction_data ''drugAlertErrors'')) (\<lambda>alert_errors.
         io_raise (safety_block drug_name interactions allergies alert_errors)))))
       else
         io_bind (io_lift (medication_payload matched_drug patient_practice_guid
                             transcript_guid provider_guid))
           (\<lambda>payload_json.
         io_bind (make_request self
                    (request ''POST'' (AddMedication patient_practice_guid transcript_guid)
                       None (Some payload_json) hdrs))
           (\<lambda>medication_response.
         io_bind (io_lift (py_getitem medication_response ''medicationGuid''))
           (\<lambda>medication_guid.
         io_bind (make_request self
                    (request ''POST''
                       (AddTranscriptMedication patient_practice_guid medication_guid) None
                       (Some (PDict [(''comment'', PNone),
                                     (''lastModifiedProviderGuid'', PNone),
                                     (''transcriptGuid'', Json transcript_guid)]))
                       hdrs))
           (\<lambda>_. io_return ())))))))))"

text \<open>\<^verbatim>\<open>for med in medication\<close> (line 826).\<close>

fun process_medications_loop ::
  "env \<Rightarrow> json \<Rightarrow> json \<Rightarrow> json \<Rightarrow> json \<Rightarrow> MedicationRequest list \<Rightarrow> unit io" where
  "process_medications_loop self pg tg provider_guid hdrs [] = io_return ()"
| "process_medications_loop self pg tg provider_guid hdrs (med # rest) =
     io_bind (process_medication self pg tg provider_guid hdrs med)
       (\<lambda>_. process_medications_loop self pg tg provider_guid hdrs rest)"

text \<open>The provider of \<^verbatim>\<open>process_medications\<close> (lines 799-824): the default, the given
  identifier, or the provider of the given name.\<close>

definition medication_provider :: "env \<Rightarrow> string option \<Rightarrow> json \<Rightarrow> json io" where
  "medication_provider self provider_name_or_guid hdrs =
     (case provider_name_or_guid of
        None \<Rightarrow> io_return (JStr default_provider_guid)
      | Some name \<Rightarrow>
          if name = [] then io_return (JStr default_provider_guid)
          else if is_guid name then io_return (JStr name)
          else
            io_bind (make_request self (request ''GET'' Provider None None hdrs))
              (\<lambda>provider_data.
            io_bind (io_lift (and_then (py_iter provider_data)
                                (py_next (field_equals ''providerName'' name))))
              (\<lambda>provider.
            if \<not> py_truthy provider
            then io_raise (HTTPException 404 (S (''Provider '' @ name @ '' not found.'')))
            else io_lift (py_getitem provider ''providerGuid''))))"

text \<open>\<^verbatim>\<open>process_medications\<close> (lines 790-961).\<close>

definition process_medications ::
  "env \<Rightarrow> json \<Rightarrow> json \<Rightarrow> MedicationRequest list \<Rightarrow> string option \<Rightarrow> json \<Rightarrow> unit io" where
  "process_medications self patient_practice_guid transcript_guid meds provider_name_or_guid hdrs =
     io_bind (medication_provider self provider_name_or_guid hdrs) (\<lambda>provider_guid.
     process_medications_loop self patient_practice_guid transcript_guid provider_guid hdrs
       meds)"

section \<open>Public operations\<close>

text \<open>The patient of \<^verbatim>\<open>get_encounters\<close> (lines 972-980) and of \<^verbatim>\<open>create_soap_notes\<close>
  (lines 1001-1009): the given identifier, or the patient found under the first and last
  word of the given name.\<close>

definition participant_guid_of :: "env \<Rightarrow> string \<Rightarrow> json \<Rightarrow> json io" where
  "participant_guid_of self patient_name_or_guid hdrs =
     (if is_guid patient_name_or_guid then io_return (JStr patient_name_or_guid)
      else
        io_bind (io_lift (first_token patient_name_or_guid)) (\<lambda>firstname.
        io_bind (io_lift (last_token patient_name_or_guid)) (\<lambda>lastname.
        get_participant_guid_from_name self firstname lastname hdrs)))"

text \<open>\<^verbatim>\<open>get_encounters\<close> (lines 965-992). \<^verbatim>\<open>JSONResponse(content)\<close> is its content.\<close>

definition get_encounters :: "env \<Rightarrow> string \<Rightarrow> pyval io" where
  "get_encounters self patient_name_or_guid =
     (let hdrs = setup_headers self
      in io_bind (participant_guid_of self patient_name_or_guid hdrs)
           (\<lambda>participant_guid.
         io_bind (make_request self
                    (request ''GET'' (TranscriptSummaries participant_guid) None None hdrs))
           (\<lambda>transcripts_encounters. io_return (Json transcripts_encounters))))"


text \<open>The facility of \<^verbatim>\<open>create_soap_notes\<close> (lines 1012-1021).\<close>

definition soap_facility :: "env \<Rightarrow> string option \<Rightarrow> json \<Rightarrow> json io" where
  "soap_facility self facility_name_or_guid hdrs =
     (case facility_name_or_guid of
        None \<Rightarrow> io_return (JStr default_facility_guid)
      | Some name \<Rightarrow>
          if name = [] then io_return (JStr default_facility_guid)
          else if is_guid name then io_return (JStr name)
          else get_facility_guid_from_name self name hdrs)"

text \<open>The transcript of \<^verbatim>\<open>create_soap_notes\<close> (lines 1023-1037): the given one, or a new one.\<close>

definition soap_transcript ::
  "env \<Rightarrow> PatientTranscriptRequest \<Rightarrow> json \<Rightarrow> json \<Rightarrow> json \<Rightarrow> json io" where
  "soap_transcript self req participant_guid facility_guid hdrs =
     (if \<not> truthy_str (transcriptGuid req)
      then
        io_bind (get_encounter_guid_from_display_name self
                   (opt_str (map_option encounter_type_name (eventDisplayName req))) hdrs)
          (\<lambda>encounter_guid.
        io_bind (create_transcript self encounter_guid participant_guid facility_guid hdrs)
          (\<lambda>transcript_data.
        io_lift (and_then (py_getitem transcript_data ''transcript'')
                   (\<lambda>t. py_getitem t ''transcriptGuid''))))
      else io_return (opt_str (transcriptGuid req)))"

text \<open>The dict \<^verbatim>\<open>fields\<close> (lines 1046-1052), in its order.\<close>

definition soap_fields :: "PatientTranscriptRequest \<Rightarrow> (string \<times> string option) list" where
  "soap_fields req =
     [(''chiefComplaintNote'', chiefComplaint req),
      (''subjectiveNote'', format_rich_text (subjectiveNote req)),
      (''objectiveNote'', format_rich_text (objectiveNote req)),
      (''assessmentNote'', format_rich_text (assessmentNote req)),
      (''planNote'', format_rich_text (planNote req))]"

text \<open>\<^verbatim>\<open>for field, value in fields.items()\<close> (lines 1054-1058).\<close>

fun update_fields ::
  "env \<Rightarrow> json \<Rightarrow> json \<Rightarrow> json \<Rightarrow> (string \<times> string option) list \<Rightarrow> unit io" where
  "update_fields self pg tg hdrs [] = io_return ()"
| "update_fields self pg tg hdrs ((field, v) # rest) =
     io_bind (case v of
                None \<Rightarrow> io_return ()
              | Some text \<Rightarrow>
                  if text = [] then io_return ()
                  else update_transcript_field self pg tg field text hdrs)
       (\<lambda>_. update_fields self pg tg hdrs rest)"

text \<open>The message of the result (lines 1079-1083).\<close>

definition soap_message :: "PatientTranscriptRequest \<Rightarrow> json \<Rightarrow> pyval" where
  "soap_message req transcript_guid =
     (if \<not> truthy_str (transcriptGuid req)
      then Text [Lit ''Encounter transcript with id: '', StrOf transcript_guid,
                 Lit '' created successfully'']
      else Text [Lit ''Encounter transcript with id: '', StrOf (opt_str (transcriptGuid req)),
                 Lit '' updated successfully''])"

text \<open>\<^verbatim>\<open>create_soap_notes\<close> once the patient is known (lines 1011-1085).\<close>

definition soap_notes_of ::
  "env \<Rightarrow> PatientTranscriptRequest \<Rightarrow> json \<Rightarrow> json \<Rightarrow> pyval io" where
  "soap_notes_of self req hdrs participant_guid =
     io_bind (soap_facility self (facilityNameOrGuid req) hdrs) (\<lambda>facility_guid.
     io_bind (soap_transcript self req participant_guid facility_guid hdrs)
       (\<lambda>transcript_guid.
     io_bind (case healthConcernNote req of
                None \<Rightarrow> io_return ()
              | Some note \<Rightarrow>
                  if note = [] then io_return ()
                  else create_health_concern self participant_guid note hdrs) (\<lambda>_.
     io_bind (update_fields self participant_guid transcript_guid hdrs (soap_fields req))
       (\<lambda>_.
     io_bind (case carePlanNotes req of
                None \<Rightarrow> io_return ()
              | Some notes \<Rightarrow>
                  if notes = [] then io_return ()
                  else update_care_plan_notes self participant_guid transcript_guid notes
                         hdrs) (\<lambda>_.
     io_bind (case medication req of
                None \<Rightarrow> io_return ()
              | Some meds \<Rightarrow>
                  if meds = [] then io_return ()
                  else process_medications self participant_guid transcript_guid meds
                         (providerNameOrGuid req) hdrs) (\<lambda>_.
     io_return (PDict [(''status'', B True),
                       (''message'', soap_message req transcript_guid)])))))))"

text \<open>\<^verbatim>\<open>create_soap_notes\<close> (lines 994-1085).\<close>

definition create_soap_notes :: "env \<Rightarrow> PatientTranscriptRequest \<Rightarrow> pyval io" where
  "create_soap_notes self req =
     (let hdrs = setup_headers self
      in io_bind (participant_guid_of self (patientNameOrParticipantGuid req) hdrs)
           (soap_notes_of self req hdrs))"

text \<open>\<^verbatim>\<open>check_for_conflicts\<close> (lines 246-278), its request and its error.\<close>

definition conflicts_request :: "json \<Rightarrow> json \<Rightarrow> datetime \<Rightarrow> datetime \<Rightarrow> json \<Rightarrow> call" where
  "conflicts_request provider facility start_at end_at hdrs =
     request ''GET'' Conflicts
       (Some (PDict [(''providerGuid'', Json provider),
                     (''facilityGuid'', Json facility),
                     (''startDateTimeFlt'', Text [Strftime ''%Y-%m-%dT%H:%M'' start_at]),
                     (''endDateTimeFlt'', Text [Strftime ''%Y-%m-%dT%H:%M'' end_at])]))
       None hdrs"

definition conflict_error :: error where
  "conflict_error =
     HTTPException 400
       (S ''Conflicts exist with the selected time. Please select a different time.'')"

definition check_for_conflicts :: "env \<Rightarrow> json \<Rightarrow> json \<Rightarrow> datetime \<Rightarrow> datetime \<Rightarrow> bool io" where
  "check_for_conflicts self provider facility start_at end_at =
     io_bind (make_request self
                (conflicts_request provider facility start_at end_at (setup_headers self)))
       (\<lambda>data.
     io_bind (io_lift (py_get data ''conflictsExist'' (JBool False))) (\<lambda>conflicts.
     if py_truthy conflicts then io_raise conflict_error else io_return True))"

text \<open>The provider of \<^verbatim>\<open>create_appointment\<close> (lines 402-428): the default, or the
  provider of the given name.\<close>

definition appointment_provider :: "env \<Rightarrow> string option \<Rightarrow> json \<Rightarrow> json io" where
  "appointment_provider self provider_name hdrs =
     (case provider_name of
        None \<Rightarrow> io_return (JStr default_provider_guid)
      | Some name \<Rightarrow>
          if name = [] then io_return (JStr default_provider_guid)
          else
            io_bind (make_request self (request ''GET'' Provider None None hdrs))
              (\<lambda>provider_data.
            io_bind (io_lift (and_then (py_iter provider_data)
                                (py_next (field_equals ''providerName'' name))))
              (\<lambda>provider.
            if \<not> py_truthy provider
            then io_raise (HTTPException 404 (S ''Provider not found.''))
            else io_lift (py_getitem provider ''providerGuid''))))"

text \<open>The facility and the practice of \<^verbatim>\<open>create_appointment\<close> (lines 430-456): the
  defaults, or those of the facility of the given name.\<close>

definition appointment_facility :: "env \<Rightarrow> string option \<Rightarrow> json \<Rightarrow> (json \<times> json) io" where
  "appointment_facility self facility_name hdrs =
     (case facility_name of
        None \<Rightarrow> io_return (JStr default_facility_guid, JStr default_practice_guid)
      | Some name \<Rightarrow>
          if name = [] then io_return (JStr default_facility_guid, JStr default_practice_guid)
          else
            io_bind (make_request self (request ''GET'' Facility None None hdrs))
              (\<lambda>facility_data.
            io_bind (io_lift (and_then (py_iter facility_data)
                                (py_next (field_equals ''name'' name))))
              (\<lambda>facility.
            if \<not> py_truthy facility
            then io_raise (HTTPException 404 (S ''Facility not found.''))
            else
              io_bind (io_lift (py_getitem facility ''facilityGuid'')) (\<lambda>facility_id.
              io_bind (io_lift (py_getitem facility ''practiceGuid'')) (\<lambda>practice_id.
              io_return (facility_id, practice_id))))))"

text \<open>The identifiers that the lookups of \<^verbatim>\<open>create_appointment\<close> return.\<close>

record appointment_ids =
  appointment_type_guid :: json
  patient_id :: json
  provider_guid :: json
  facility_guid :: json
  practice_guid :: json

text \<open>The lookups of \<^verbatim>\<open>create_appointment\<close> (lines 358-456), from the appointment
  types to the facility.\<close>

definition resolve_appointment ::
  "env \<Rightarrow> AppointmentRequest \<Rightarrow> PatientSchedulerParticipant \<Rightarrow> json \<Rightarrow> appointment_ids io" where
  "resolve_appointment self req patient hdrs =
     io_bind (make_request self (request ''GET'' AppointmentTypes None None hdrs))
       (\<lambda>appointment_types_response.
     io_bind (io_lift (and_then (py_iter appointment_types_response)
                         (py_next (field_equals ''name''
                                     (appointment_type_name (appointmentType req))))))
       (\<lambda>appointment_type.
     if \<not> py_truthy appointment_type
     then io_raise (HTTPException 404 (S ''Appointment type not found.''))
     else
       io_bind (io_lift (py_getitem appointment_type ''id'')) (\<lambda>type_guid.
       io_bind (make_request self
                  (request ''POST'' SearchPatient None
                     (Some (PDict [(''matchAll'', B True),
                                   (''firstName'', S (firstName patient)),
                                   (''lastName'', S (lastName patient))]))
                     hdrs))
         (\<lambda>patient_search_response.
       io_bind (io_lift (and_then (py_get patient_search_response ''patients'' JNull) py_len))
         (\<lambda>n.
       if n < 1 then io_raise (HTTPException 404 (S ''Patient not found.''))
       else
         io_bind (io_lift (and_then (py_getitem patient_search_response ''patients'') (\<lambda>ps.
                           and_then (py_getitem0 ps)
                             (\<lambda>p. py_getitem p ''patientPracticeGuid''))))
           (\<lambda>patient_guid.
         io_bind (appointment_provider self (lastModifiedByProvider req) hdrs)
           (\<lambda>provider.
         io_bind (appointment_facility self (facilityName req) hdrs) (\<lambda>(facility, practice).
         io_return \<lparr>appointment_type_guid = type_guid, patient_id = patient_guid,
                     provider_guid = provider, facility_guid = facility,
                     practice_guid = practice\<rparr>))))))))"

text \<open>The payload of the create request (lines 458-496).\<close>

definition appointment_payload ::
  "AppointmentRequest \<Rightarrow> PatientSchedulerParticipant \<Rightarrow> appointment_ids \<Rightarrow> datetime \<Rightarrow> datetime
     \<Rightarrow> pyval" where
  "appointment_payload req patient ids end_at payment_date =
     PDict
       [(''patientAppointment'',
         PDict
           [(''practiceGuid'', Json (practice_guid ids)),
            (''schedulerEventPurposeType'',
             PDict [(''schedulerEventPurposeTypeGuid'', Json (appointment_type_guid ids))]),
            (''schedulerEventParticipants'',
             Json (JArr
               [JObj [(''schedulerEventParticipantTypeId'', JInt 3),
                      (''participantGuid'', patient_id ids),
                      (''chiefComplaint'', JStr (participant_chiefComplaint patient))],
                JObj [(''schedulerEventParticipantTypeId'', JInt 2),
                      (''participantGuid'', facility_guid ids)],
                JObj [(''schedulerEventParticipantTypeId'', JInt 1),
                      (''participantGuid'', provider_guid ids)]])),
            (''lastModifiedByProviderGuid'', Json (provider_guid ids)),
            (''startAtDateTimeUtc'', Text [Isoformat (startAtDateTimeUtc req)]),
            (''endAtDateTimeUtc'', Text [Isoformat end_at]),
            (''insuranceCoverageTypeCode'', Json (opt_str (insuranceCoverageTypeCode req))),
            (''paymentDate'', Text [Isoformat payment_date]),
            (''startAtDateTimeFlt'', Text [Isoformat (startAtDateTimeUtc req)]),
            (''endAtDateTimeFlt'', Text [Isoformat end_at]),
            (''appointmentConfirmationNotes'', Json (JStr [])),
            (''intakeFormGuids'', Json (JArr [])),
            (''disableIntakeForm'', B True)])]"

definition create_appointment_request ::
  "AppointmentRequest \<Rightarrow> PatientSchedulerParticipant \<Rightarrow> appointment_ids \<Rightarrow> datetime \<Rightarrow> datetime
     \<Rightarrow> json \<Rightarrow> call" where
  "create_appointment_request req patient ids end_at payment_date hdrs =
     request ''POST'' CreateAppointment None
       (Some (appointment_payload req patient ids end_at payment_date)) hdrs"

text \<open>\<^verbatim>\<open>create_appointment\<close> (lines 353-516). The first statement reads the first participant;
  the payload reads the end time, and is built before the conflict check.\<close>

definition create_appointment :: "env \<Rightarrow> AppointmentRequest \<Rightarrow> pyval io" where
  "create_appointment self req =
     (case schedulerEventParticipants req of
        [] \<Rightarrow> io_raise IndexError
      | patient # others \<Rightarrow>
          (let hdrs = setup_headers self
           in io_bind (resolve_appointment self req patient hdrs) (\<lambda>ids.
              case endAtDateTimeUtc req of
                None \<Rightarrow> io_raise AttributeError
              | Some end_at \<Rightarrow>
                  io_bind (case paymentDate req of
                             Some d \<Rightarrow> io_return d
                           | None \<Rightarrow> now self) (\<lambda>payment_date.
                  io_bind (check_for_conflicts self (provider_guid ids) (facility_guid ids)
                             (startAtDateTimeUtc req) end_at) (\<lambda>_.
                  io_bind (make_request self
                             (create_appointment_request req patient ids end_at payment_date
                                hdrs))
                    (\<lambda>create_appointment_response.
                  io_return (Json create_appointment_response)))))))"






text \<open>
  The patient of \<^verbatim>\<open>upload_document\<close> (lines 282-298). \<^verbatim>\<open>HTTPException\<close> has the
  parameters \<^verbatim>\<open>status_code\<close>, \<^verbatim>\<open>detail\<close> and \<^verbatim>\<open>headers\<close>; the call of line 294
  passes the keyword \<^verbatim>\<open>error_code\<close>, so it raises \<^verbatim>\<open>TypeError\<close> and no
  \<^verbatim>\<open>HTTPException\<close> is made.
\<close>

definition upload_document_patient :: "env \<Rightarrow> string \<Rightarrow> string \<Rightarrow> json io" where
  "upload_document_patient self firstname lastname =
     (let hdrs = setup_headers self
      in io_bind (make_request self
                    (request ''POST'' SearchPatient None
                       (Some (PDict [(''matchAll'', B True), (''firstName'', S firstname),
                                     (''lastName'', S lastname)]))
                       hdrs)) (\<lambda>search_response.
         io_bind (io_lift (and_then (py_get search_response ''patients'' JNull) py_len))
           (\<lambda>n.
         if n < 1 then io_raise TypeError
         else io_lift (and_then (py_getitem search_response ''patients'') (\<lambda>ps.
                       and_then (py_getitem0 ps)
                         (\<lambda>p. py_getitem p ''patientPracticeGuid''))))))"

section \<open>The requests of an operation\<close>

text \<open>The key of \<^verbatim>\<open>PF_URLS_MAP\<close> under which the URL of a request is found.\<close>

fun endpoint_key :: "endpoint \<Rightarrow> string" where
  "endpoint_key AppointmentTypes = ''appointment_types''"
| "endpoint_key SearchPatient = ''search_patient''"
| "endpoint_key Provider = ''provider''"
| "endpoint_key Facility = ''facility''"
| "endpoint_key Conflicts = ''conflicts''"
| "endpoint_key CreateAppointment = ''create_appointment''"
| "endpoint_key CombinedEvent = ''combined_event''"
| "endpoint_key EncounterEventType = ''encounter_event_type''"
| "endpoint_key (CreateTranscripts p) = ''create_transcripts''"
| "endpoint_key (HealthConcern p) = ''health_concern''"
| "endpoint_key (HealthConcernOf p g) = ''health_concern''"
| "endpoint_key (HealthConcerns p) = ''health_concerns''"
| "endpoint_key (UpdateTranscript p t) = ''update_transcript''"
| "endpoint_key (TranscriptEvents p t) = ''transcript_events''"
| "endpoint_key (UpdateCarePlan p e) = ''update_care_plan''"
| "endpoint_key (SearchDrug q) = ''search_drug''"
| "endpoint_key (DrugInteractions p) = ''drug_interactions''"
| "endpoint_key (AddMedication p t) = ''add_medication''"
| "endpoint_key (AddTranscriptMedication p m) = ''add_transcript_medication''"
| "endpoint_key (TranscriptSummaries p) = ''transcript_summaries''"

text \<open>The requests a coroutine makes when it starts after the requests \<open>tr\<close>.\<close>

definition new_calls :: "'a io \<Rightarrow> call list \<Rightarrow> call list" where
  "new_calls m tr = drop (length tr) (snd (m tr))"

text \<open>A coroutine only adds requests, and only to endpoints whose keys are in \<open>K\<close>.\<close>

definition issues :: "string set \<Rightarrow> 'a io \<Rightarrow> bool" where
  "issues K m =
     (\<forall>tr. \<exists>new. snd (m tr) = tr @ new \<and> (\<forall>c\<in>set new. endpoint_key (url c) \<in> K))"

text \<open>The endpoints of \<^verbatim>\<open>create_soap_notes\<close> other than the three lookups by name.\<close>

definition soap_keys :: "string set" where
  "soap_keys =
     {''encounter_event_type'', ''create_transcripts'', ''health_concerns'',
      ''health_concern'', ''update_transcript'', ''transcript_events'', ''update_care_plan'',
      ''search_drug'', ''drug_interactions'', ''add_medication'',
      ''add_transcript_medication''}"


text \<open>The search request of the lookups of a patient.\<close>

definition patient_search :: "string \<Rightarrow> string \<Rightarrow> json \<Rightarrow> call" where
  "patient_search firstname lastname hdrs =
     request ''POST'' SearchPatient None
       (Some (PDict [(''matchAll'', B True), (''firstName'', S firstname),
                     (''lastName'', S lastname)]))
       hdrs"

text \<open>A section of a SOAP note as it is to be sent: no request for an absent or empty
  section, otherwise one \<^verbatim>\<open>PATCH\<close> whose payload is the field with the wrapped
  text.\<close>

definition rich_text :: "string \<Rightarrow> string" where
  "rich_text t = rich_text_open @ t @ rich_text_close"

definition section_update ::
  "string \<Rightarrow> (string \<Rightarrow> string) \<Rightarrow> string option \<Rightarrow> (string \<times> pyval option) list" where
  "section_update field wrap text =
     (case text of
        None \<Rightarrow> []
      | Some t \<Rightarrow> if t = [] then [] else [(''PATCH'', Some (PDict [(field, S (wrap t))]))])"

text \<open>The five sections in the order of the operation; the chief complaint is not
  wrapped.\<close>

definition section_updates :: "PatientTranscriptRequest \<Rightarrow> (string \<times> pyval option) list" where
  "section_updates req =
     section_update ''chiefComplaintNote'' (\<lambda>t. t) (chiefComplaint req)
     @ section_update ''subjectiveNote'' rich_text (subjectiveNote req)
     @ section_update ''objectiveNote'' rich_text (objectiveNote req)
     @ section_update ''assessmentNote'' rich_text (assessmentNote req)
     @ section_update ''planNote'' rich_text (planNote req)"

text \<open>The method and the payload of the field-patch requests among some requests.\<close>

definition field_patches :: "call list \<Rightarrow> (string \<times> pyval option) list" where
  "field_patches calls =
     map (\<lambda>c. (meth c, payload c))
       (filter (\<lambda>c. endpoint_key (url c) = ''update_transcript'') calls)"

text \<open>A coroutine sends a first part of the field-patch requests \<open>due\<close>, and all of
  them when it returns.\<close>

definition patching :: "(string \<times> pyval option) list \<Rightarrow> 'a io \<Rightarrow> bool" where
  "patching due m =
     (\<forall>tr. \<exists>new n. snd (m tr) = tr @ new \<and> n \<le> length due
        \<and> field_patches new = take n due
        \<and> (\<not> isl (fst (m tr)) \<longrightarrow> n = length due))"

text \<open>A response whose error the classification can read: the body cannot be parsed, or
  it is an object whose \<^verbatim>\<open>error\<close>, when it has one, is an object.\<close>

definition error_readable :: "response \<Rightarrow> bool" where
  "error_readable r =
     (case body r of
        None \<Rightarrow> True
      | Some (JObj entries) \<Rightarrow>
          (case map_of entries ''error'' of
             None \<Rightarrow> True
           | Some (JObj err) \<Rightarrow> True
           | Some _ \<Rightarrow> False)
      | Some _ \<Rightarrow> False)"

text \<open>The message and the code that a response reports: those of the \<^verbatim>\<open>error\<close> of its
  body, and otherwise the generic message and the status.\<close>

definition original_message :: "response \<Rightarrow> json" where
  "original_message r =
     (case body r of
        Some (JObj entries) \<Rightarrow>
          (case map_of entries ''error'' of
             Some (JObj err) \<Rightarrow>
               (case map_of err ''message'' of
                  Some message \<Rightarrow> message
                | None \<Rightarrow> JStr ''Unknown error'')
           | _ \<Rightarrow> JStr ''Unknown error'')
      | _ \<Rightarrow> JStr ''Unknown error'')"

definition original_code :: "response \<Rightarrow> json" where
  "original_code r =
     (case body r of
        Some (JObj entries) \<Rightarrow>
          (case map_of entries ''error'' of
             Some (JObj err) \<Rightarrow>
               (case map_of err ''code'' of
                  Some code \<Rightarrow> code
                | None \<Rightarrow> JStr (str_int (status r)))
           | _ \<Rightarrow> JStr (str_int (status r)))
      | _ \<Rightarrow> JStr (str_int (status r)))"

section \<open>Example inputs\<close>

text \<open>Answers of the remote system with status 200, and an adapter without an injected
  requester.\<close>

definition ok :: "json \<Rightarrow> response" where
  "ok j = \<lparr>status = 200, body = Some j\<rparr>"

definition example_clock :: "nat \<Rightarrow> datetime" where
  "example_clock n = \<lparr>ticks = 63852832800000000 + int n, utcoffset = Some 0\<rparr>"

definition example_env :: "(call list \<Rightarrow> call \<Rightarrow> response) \<Rightarrow> env" where
  "example_env world =
     \<lparr>integration_name = ''practicefusion'', user_agent = ''Mozilla/5.0'',
      cookies = ''session=1'', bearer_auth = ''Bearer t'', network_requester = None,
      session = world, clock = example_clock\<rparr>"

text \<open>An appointment for Jane Doe on 2024-06-01 at 10:00 UTC: as the caller gives it, as
  the constructor completes it, and with an end one hour before its start.\<close>

definition example_start :: datetime where
  "example_start = \<lparr>ticks = 63852832800000000, utcoffset = Some 0\<rparr>"

definition jane :: PatientSchedulerParticipant where
  "jane = \<lparr>participant_chiefComplaint = ''cough'', firstName = ''Jane'', lastName = ''Doe''\<rparr>"

definition example_appointment :: AppointmentRequest where
  "example_appointment =
     \<lparr>facilityName = None, appointmentType = Wellness_Exam,
      schedulerEventParticipants = [jane], lastModifiedByProvider = None,
      startAtDateTimeUtc = example_start, endAtDateTimeUtc = None,
      insuranceCoverageTypeCode = Some ''Unins'', paymentDate = Some example_start\<rparr>"

definition booked_appointment :: AppointmentRequest where
  "booked_appointment =
     example_appointment\<lparr>endAtDateTimeUtc := Some (example_start\<lparr>ticks := 63852834600000000\<rparr>)\<rparr>"

definition backwards_appointment :: AppointmentRequest where
  "backwards_appointment =
     example_appointment\<lparr>endAtDateTimeUtc := Some (example_start\<lparr>ticks := 63852829200000000\<rparr>)\<rparr>"

text \<open>A remote system on which the slot is taken.\<close>

definition busy_world :: "call list \<Rightarrow> call \<Rightarrow> response" where
  "busy_world tr c =
     (case url c of
        AppointmentTypes \<Rightarrow>
          ok (JArr [JObj [(''name'', JStr ''Wellness Exam''), (''id'', JStr ''type-1'')]])
      | SearchPatient \<Rightarrow>
          ok (JObj [(''patients'', JArr [JObj [(''patientPracticeGuid'', JStr ''patient-1'')]])])
      | Conflicts \<Rightarrow> ok (JObj [(''conflictsExist'', JBool True)])
      | _ \<Rightarrow> ok (JObj []))"

text \<open>A remote system whose bodies cannot be parsed.\<close>

definition silent_world :: "call list \<Rightarrow> call \<Rightarrow> response" where
  "silent_world tr c = \<lparr>status = 200, body = None\<rparr>"

text \<open>A string of identifier shape.\<close>

definition guid_shaped :: string where
  "guid_shaped = ''01234567-89ab-cdef-0123-456789abcdef''"

text \<open>A remote system with one appointment type, patient, provider and facility, and no
  encounter type.\<close>

definition clinic_world :: "call list \<Rightarrow> call \<Rightarrow> response" where
  "clinic_world tr c =
     (case url c of
        AppointmentTypes \<Rightarrow>
          ok (JArr [JObj [(''name'', JStr ''Wellness Exam''), (''id'', JStr ''type-1'')]])
      | SearchPatient \<Rightarrow>
          ok (JObj [(''patients'', JArr [JObj [(''patientPracticeGuid'', JStr ''patient-1'')]])])
      | Provider \<Rightarrow>
          ok (JArr [JObj [(''providerName'', JStr ''Anurag''),
                          (''providerGuid'', JStr ''01234567-89ab-cdef-0123-456789abcdef'')]])
      | Facility \<Rightarrow>
          ok (JArr [JObj [(''name'', JStr ''Silicon Beach Medical Center''),
                          (''facilityGuid'', JStr ''facility-1''),
                          (''practiceGuid'', JStr ''practice-1'')]])
      | EncounterEventType \<Rightarrow> ok (JObj [(''events'', JArr [])])
      | CreateTranscripts p \<Rightarrow>
          ok (JObj [(''transcript'', JObj [(''transcriptGuid'', JStr ''transcript-1'')])])
      | _ \<Rightarrow> ok (JObj []))"

text \<open>A name with a date of birth: 36 characters, four hyphens.\<close>

definition name_of_guid_shape :: string where
  "name_of_guid_shape = ''Anne-Marie Lee-Smith, born 1980-1-07''"

text \<open>An update of the transcript \<^verbatim>\<open>transcript-1\<close> with a chief complaint only.\<close>

definition soap_update :: PatientTranscriptRequest where
  "soap_update =
     \<lparr>patientNameOrParticipantGuid = guid_shaped, transcriptGuid = Some ''transcript-1'',
      facilityNameOrGuid = None, eventDisplayName = None, healthConcernNote = None,
      chiefComplaint = Some ''cough'', subjectiveNote = None, objectiveNote = None,
      assessmentNote = None, planNote = None, carePlanNotes = None, medication = None,
      providerNameOrGuid = None\<rparr>"

text \<open>A drug, two medication requests, and a remote system whose screen answers with one
  alert list only.\<close>

definition amoxicillin :: json where
  "amoxicillin =
     JObj [(''drugName'', JStr ''Amoxicillin 500 MG''), (''ndc'', JStr ''00093310905''),
           (''doseForm'', JStr ''Capsule''), (''genericName'', JStr ''amoxicillin''),
           (''isGeneric'', JBool True), (''isMedicalSupply'', JBool False),
           (''productStrength'', JStr ''500 mg''), (''route'', JStr ''oral''),
           (''rxNormCui'', JStr ''308191''), (''tradeName'', JStr ''Amoxil'')]"

definition amoxicillin_request :: MedicationRequest where
  "amoxicillin_request = \<lparr>searchCriteria = ''amox'', drugNameOrNdc = ''00093310905''\<rparr>"

definition ibuprofen_request :: MedicationRequest where
  "ibuprofen_request = \<lparr>searchCriteria = ''ibu'', drugNameOrNdc = ''Ibuprofen''\<rparr>"

definition allergy_world :: "call list \<Rightarrow> call \<Rightarrow> response" where
  "allergy_world tr c =
     (case url c of
        SearchDrug q \<Rightarrow> ok (JArr [amoxicillin])
      | DrugInteractions p \<Rightarrow>
          ok (JObj [(''drugAllergyAlerts'', JArr [JStr ''penicillin allergy''])])
      | AddMedication p t \<Rightarrow> ok (JObj [(''medicationGuid'', JStr ''medication-1'')])
      | _ \<Rightarrow> ok (JObj []))"


text \<open>An update with a chief complaint, a subjective note and an empty plan.\<close>

definition soap_sections :: PatientTranscriptRequest where
  "soap_sections =
     soap_update\<lparr>subjectiveNote := Some ''dry cough at night'', planNote := Some []\<rparr>"

section \<open>Basic facts\<close>

lemma and_then_simps [simp]:
  "and_then (Inl e) f = Inl e"
  "and_then (Inr x) f = f x"
  by (simp_all add: and_then_def)

lemma request_sel [simp]:
  "meth (request m u ps js hs) = m"
  "url (request m u ps js hs) = u"
  "params (request m u ps js hs) = ps"
  "payload (request m u ps js hs) = js"
  "headers (request m u ps js hs) = hs"
  by (simp_all add: request_def)

lemma issues_return: "issues K (io_return x)"
  by (simp add: issues_def io_return_def)

lemma issues_raise: "issues K (io_raise e)"
  by (simp add: issues_def io_raise_def)

lemma issues_lift: "issues K (io_lift r)"
  by (simp add: issues_def io_lift_def)

lemma issues_now: "issues K (now self)"
  by (simp add: issues_def now_def)

lemma issues_request: "endpoint_key (url c) \<in> K \<Longrightarrow> issues K (make_request self c)"
  by (simp add: issues_def make_request_def split: option.split)

lemma issues_bind:
  assumes "issues K m" and "\<And>x. issues K (f x)"
  shows "issues K (io_bind m f)"
  unfolding issues_def
proof
  fix tr
  from assms(1) obtain new where m: "snd (m tr) = tr @ new"
    and k: "\<forall>c\<in>set new. endpoint_key (url c) \<in> K"
    unfolding issues_def by blast
  show "\<exists>new. snd (io_bind m f tr) = tr @ new \<and> (\<forall>c\<in>set new. endpoint_key (url c) \<in> K)"
  proof (cases "m tr")
    case (Pair r tr')
    with m have tr': "tr' = tr @ new" by simp
    show ?thesis
    proof (cases r)
      case (Inl e)
      with Pair tr' k show ?thesis by (auto simp: io_bind_def)
    next
      case (Inr x)
      from assms(2) [of x] obtain more where f: "snd (f x tr') = tr' @ more"
        and k': "\<forall>c\<in>set more. endpoint_key (url c) \<in> K"
        unfolding issues_def by blast
      have "snd (io_bind m f tr) = tr @ (new @ more)"
        using Pair Inr f tr' by (simp add: io_bind_def)
      moreover have "\<forall>c\<in>set (new @ more). endpoint_key (url c) \<in> K"
        using k k' by auto
      ultimately show ?thesis by blast
    qed
  qed
qed

lemma issues_if: "(b \<Longrightarrow> issues K m) \<Longrightarrow> (\<not> b \<Longrightarrow> issues K n) \<Longrightarrow> issues K (if b then m else n)"
  by simp

lemma issues_option:
  "issues K m \<Longrightarrow> (\<And>x. issues K (f x)) \<Longrightarrow> issues K (case v of None \<Rightarrow> m | Some x \<Rightarrow> f x)"
  by (cases v) simp_all

lemma issues_prod: "(\<And>a b. issues K (f a b)) \<Longrightarrow> issues K (case p of (a, b) \<Rightarrow> f a b)"
  by (cases p) simp

lemma issues_mono: "issues K m \<Longrightarrow> K \<subseteq> K' \<Longrightarrow> issues K' m"
  unfolding issues_def by blast

lemmas issues_intros =
  issues_return issues_raise issues_lift issues_now issues_bind issues_if issues_option
  issues_prod

lemma issues_participant:
  "''search_patient'' \<in> K \<Longrightarrow> issues K (get_participant_guid_from_name self f l hdrs)"
  unfolding get_participant_guid_from_name_def
  by (intro issues_intros issues_request) simp

lemma issues_facility:
  "''facility'' \<in> K \<Longrightarrow> issues K (get_facility_guid_from_name self n hdrs)"
  unfolding get_facility_guid_from_name_def
  by (intro issues_intros issues_request) simp

lemma issues_encounter:
  "''encounter_event_type'' \<in> K \<Longrightarrow> issues K (get_encounter_guid_from_display_name self n hdrs)"
  unfolding get_encounter_guid_from_display_name_def
  by (intro issues_intros issues_request) simp

lemma issues_create_transcript:
  "''create_transcripts'' \<in> K \<Longrightarrow> issues K (create_transcript self e p f hdrs)"
  unfolding create_transcript_def
  by (intro issues_intros issues_request) simp

lemma issues_health_concern:
  "''health_concerns'' \<in> K \<Longrightarrow> ''health_concern'' \<in> K \<Longrightarrow> issues K (create_health_concern self p n hdrs)"
  unfolding create_health_concern_def Let_def
  by (intro issues_intros issues_request) simp_all

lemma issues_update_field:
  "''update_transcript'' \<in> K \<Longrightarrow> issues K (update_transcript_field self p t f v hdrs)"
  unfolding update_transcript_field_def
  by (intro issues_intros issues_request) simp

lemma issues_care_plan:
  "''transcript_events'' \<in> K \<Longrightarrow> ''update_care_plan'' \<in> K \<Longrightarrow> issues K (update_care_plan_notes self p t n hdrs)"
  unfolding update_care_plan_notes_def
  by (intro issues_intros issues_request) simp_all

lemma issues_process_medication:
  "''search_drug'' \<in> K \<Longrightarrow> ''drug_interactions'' \<in> K \<Longrightarrow> ''add_medication'' \<in> K \<Longrightarrow> ''add_transcript_medication'' \<in> K
   \<Longrightarrow> issues K (process_medication self p t pr hdrs med)"
  unfolding process_medication_def
  by (intro issues_intros issues_request) simp_all

lemma issues_medications_loop:
  "''search_drug'' \<in> K \<Longrightarrow> ''drug_interactions'' \<in> K \<Longrightarrow> ''add_medication'' \<in> K \<Longrightarrow> ''add_transcript_medication'' \<in> K
   \<Longrightarrow> issues K (process_medications_loop self p t pr hdrs meds)"
  by (induction meds) (auto intro!: issues_intros issues_process_medication)

lemma issues_medication_provider:
  assumes "''provider'' \<in> K \<or> (\<exists>g. v = Some g \<and> is_guid g)"
  shows "issues K (medication_provider self v hdrs)"
proof (cases v)
  case None
  then show ?thesis by (simp add: medication_provider_def issues_return)
next
  case (Some name)
  show ?thesis
  proof (cases "name = [] \<or> is_guid name")
    case True
    with Some show ?thesis by (auto simp: medication_provider_def issues_return)
  next
    case False
    with assms Some have "''provider'' \<in> K" by auto
    then show ?thesis
      unfolding medication_provider_def by (intro issues_intros issues_request) simp
  qed
qed

lemma issues_process_medications:
  assumes "''provider'' \<in> K \<or> (\<exists>g. v = Some g \<and> is_guid g)"
    and "''search_drug'' \<in> K" "''drug_interactions'' \<in> K" "''add_medication'' \<in> K"
      "''add_transcript_medication'' \<in> K"
  shows "issues K (process_medications self p t meds v hdrs)"
  unfolding process_medications_def
  using assms by (intro issues_bind issues_medication_provider issues_medications_loop)

lemma issues_soap_facility:
  assumes "''facility'' \<in> K \<or> (\<exists>g. v = Some g \<and> is_guid g)"
  shows "issues K (soap_facility self v hdrs)"
proof (cases v)
  case None
  then show ?thesis by (simp add: soap_facility_def issues_return)
next
  case (Some name)
  show ?thesis
  proof (cases "name = [] \<or> is_guid name")
    case True
    with Some show ?thesis by (auto simp: soap_facility_def issues_return)
  next
    case False
    with assms Some have "''facility'' \<in> K" by auto
    then show ?thesis
      using Some False by (simp add: soap_facility_def issues_facility)
  qed
qed

lemma issues_soap_transcript:
  "''encounter_event_type'' \<in> K \<Longrightarrow> ''create_transcripts'' \<in> K
   \<Longrightarrow> issues K (soap_transcript self req p f hdrs)"
  unfolding soap_transcript_def
  by (intro issues_intros issues_encounter issues_create_transcript)

lemma issues_update_fields:
  "''update_transcript'' \<in> K \<Longrightarrow> issues K (update_fields self p t hdrs fs)"
  by (induction fs) (auto intro!: issues_intros issues_update_field)

lemma issues_soap_notes_of:
  assumes "soap_keys \<subseteq> K"
    and "''facility'' \<in> K \<or> (\<exists>g. facilityNameOrGuid req = Some g \<and> is_guid g)"
    and "''provider'' \<in> K \<or> (\<exists>g. providerNameOrGuid req = Some g \<and> is_guid g)"
  shows "issues K (soap_notes_of self req hdrs p)"
  unfolding soap_notes_of_def
  using assms
  by (intro issues_intros issues_soap_facility issues_soap_transcript issues_health_concern
      issues_update_fields issues_care_plan issues_process_medications)
    (auto simp: soap_keys_def)

lemma issues_participant_guid_of:
  "''search_patient'' \<in> K \<or> is_guid n \<Longrightarrow> issues K (participant_guid_of self n hdrs)"
  unfolding participant_guid_of_def
  by (cases "is_guid n") (auto intro!: issues_intros issues_participant)

lemma issues_appointment_provider:
  "''provider'' \<in> K \<Longrightarrow> issues K (appointment_provider self v hdrs)"
  unfolding appointment_provider_def
  by (intro issues_intros issues_request) simp

lemma issues_appointment_facility:
  "''facility'' \<in> K \<Longrightarrow> issues K (appointment_facility self v hdrs)"
  unfolding appointment_facility_def
  by (intro issues_intros issues_request) simp

lemma issues_resolve_appointment:
  "{''appointment_types'', ''search_patient'', ''provider'', ''facility''} \<subseteq> K
   \<Longrightarrow> issues K (resolve_appointment self req p hdrs)"
  unfolding resolve_appointment_def
  by (intro issues_intros issues_request issues_appointment_provider issues_appointment_facility)
    auto

lemma issues_new_calls:
  "issues K m \<Longrightarrow> list_all (\<lambda>c. endpoint_key (url c) \<in> K) (new_calls m tr)"
  unfolding issues_def new_calls_def
  by (metis append_eq_conv_conj list_all_iff)

lemma io_bind_Inr: "m tr = (Inr x, tr') \<Longrightarrow> io_bind m f tr = f x tr'"
  by (simp add: io_bind_def)

lemma io_bind_Inl: "m tr = (Inl e, tr') \<Longrightarrow> io_bind m f tr = (Inl e, tr')"
  by (simp add: io_bind_def)

lemma io_app [simp]:
  "io_return x tr = (Inr x, tr)"
  "io_raise e tr = (Inl e, tr)"
  "io_lift r tr = (r, tr)"
  by (simp_all add: io_return_def io_raise_def io_lift_def)

lemma make_request_trace: "snd (make_request self c tr) = tr @ [c]"
  by (simp add: make_request_def split: option.split)

lemma make_request_session:
  "network_requester self = None \<Longrightarrow>
   make_request self c tr = (handle_response self (session self tr c), tr @ [c])"
  by (simp add: make_request_def)

lemma handle_response_ok [simp]: "handle_response self (ok j) = Inr j"
  by (simp add: handle_response_def ok_def)

lemmas run_defs =
  io_bind_def make_request_def example_env_def field_equals_def setup_headers_def

lemma str_int_501: "str_int 501 = ''501''"
  by (simp add: str_int_def digits.simps)

lemma str_int_503: "str_int 503 = ''503''"
  by (simp add: str_int_def digits.simps)

lemma str_int_200: "str_int 200 = ''200''"
  by (simp add: str_int_def digits.simps)

lemma is_guid_nonempty: "is_guid g \<Longrightarrow> g \<noteq> []"
  by (auto simp: is_guid_def)

lemma issues_create_soap_notes:
  assumes "soap_keys \<subseteq> K"
    and "''search_patient'' \<in> K \<or> is_guid (patientNameOrParticipantGuid req)"
    and "''facility'' \<in> K \<or> (\<exists>g. facilityNameOrGuid req = Some g \<and> is_guid g)"
    and "''provider'' \<in> K \<or> (\<exists>g. providerNameOrGuid req = Some g \<and> is_guid g)"
  shows "issues K (create_soap_notes self req)"
  unfolding create_soap_notes_def Let_def
  using assms by (intro issues_bind issues_participant_guid_of issues_soap_notes_of)

lemma new_calls_avoid:
  assumes "issues K m" and "k \<notin> K"
  shows "list_all (\<lambda>c. endpoint_key (url c) \<noteq> k) (new_calls m tr)"
  using issues_new_calls [OF assms(1), of tr] assms(2)
  by (auto simp: list_all_iff)

lemma io_bind_simps [simp]:
  "io_bind (io_return x) f = f x"
  "io_bind (io_raise e) f = io_raise e"
  "io_bind (io_lift (Inr x)) f = f x"
  "io_bind (io_lift (Inl e)) f = io_raise e"
  by (auto simp: io_bind_def io_return_def io_raise_def io_lift_def fun_eq_iff)

lemma snd_bind_return: "snd (io_bind m (\<lambda>x. io_return (f x)) tr) = snd (m tr)"
  by (simp add: io_bind_def split: prod.split sum.split)












lemma field_patches_append [simp]:
  "field_patches (a @ b) = field_patches a @ field_patches b"
  by (simp add: field_patches_def)

lemma field_patches_Nil [simp]: "field_patches [] = []"
  by (simp add: field_patches_def)

lemma patching_bind:
  assumes first: "patching d1 m" and rest: "\<And>x. patching d2 (f x)"
  shows "patching (d1 @ d2) (io_bind m f)"
  unfolding patching_def
proof
  fix tr
  from first obtain new1 n1 where m: "snd (m tr) = tr @ new1" and n1: "n1 \<le> length d1"
    and p1: "field_patches new1 = take n1 d1"
    and ok1: "\<not> isl (fst (m tr)) \<longrightarrow> n1 = length d1"
    unfolding patching_def by blast
  show "\<exists>new n. snd (io_bind m f tr) = tr @ new \<and> n \<le> length (d1 @ d2)
      \<and> field_patches new = take n (d1 @ d2)
      \<and> (\<not> isl (fst (io_bind m f tr)) \<longrightarrow> n = length (d1 @ d2))"
  proof (cases "m tr")
    case (Pair r tr')
    with m have tr': "tr' = tr @ new1" by simp
    show ?thesis
    proof (cases r)
      case (Inl e)
      have "snd (io_bind m f tr) = tr @ new1" "isl (fst (io_bind m f tr))"
        using Pair Inl tr' by (simp_all add: io_bind_def)
      moreover have "n1 \<le> length (d1 @ d2)" "field_patches new1 = take n1 (d1 @ d2)"
        using n1 p1 by simp_all
      ultimately show ?thesis by blast
    next
      case (Inr x)
      with Pair ok1 have full: "n1 = length d1" by simp
      from rest [of x] obtain new2 n2 where fx: "snd (f x tr') = tr' @ new2"
        and n2: "n2 \<le> length d2" and p2: "field_patches new2 = take n2 d2"
        and ok2: "\<not> isl (fst (f x tr')) \<longrightarrow> n2 = length d2"
        unfolding patching_def by blast
      have run: "io_bind m f tr = f x tr'"
        using Pair Inr by (simp add: io_bind_def)
      have "snd (io_bind m f tr) = tr @ (new1 @ new2)"
        using run fx tr' by simp
      moreover have "length d1 + n2 \<le> length (d1 @ d2)"
        using n2 by simp
      moreover have "field_patches (new1 @ new2) = take (length d1 + n2) (d1 @ d2)"
        using p1 p2 full by simp
      moreover have "\<not> isl (fst (io_bind m f tr)) \<longrightarrow> length d1 + n2 = length (d1 @ d2)"
        using run ok2 by simp
      ultimately show ?thesis by blast
    qed
  qed
qed

lemma patching_then:
  "patching [] m \<Longrightarrow> (\<And>x. patching d (f x)) \<Longrightarrow> patching d (io_bind m f)"
  using patching_bind [of "[]" m d f] by simp

lemma patching_first:
  "patching d m \<Longrightarrow> (\<And>x. patching [] (f x)) \<Longrightarrow> patching d (io_bind m f)"
  using patching_bind [of d m "[]" f] by simp

lemma patching_silent:
  assumes "issues (- {''update_transcript''}) m"
  shows "patching [] m"
  unfolding patching_def
proof
  fix tr
  from assms obtain new where new: "snd (m tr) = tr @ new"
    and keys: "\<forall>c\<in>set new. endpoint_key (url c) \<in> - {''update_transcript''}"
    unfolding issues_def by blast
  from keys have "filter (\<lambda>c. endpoint_key (url c) = ''update_transcript'') new = []"
    by (auto simp: filter_empty_conv)
  then have "field_patches new = take 0 []"
    by (simp add: field_patches_def)
  with new show "\<exists>new n. snd (m tr) = tr @ new \<and> n \<le> length []
      \<and> field_patches new = take n []
      \<and> (\<not> isl (fst (m tr)) \<longrightarrow> n = length [])"
    by auto
qed

lemma patching_return: "patching [] (io_return x)"
  by (rule patching_silent) (rule issues_return)

lemma patching_update_field:
  "patching [(''PATCH'', Some (PDict [(field, S v)]))]
     (update_transcript_field self pg tg field v hdrs)"
  unfolding patching_def
proof
  fix tr
  let ?c = "request ''PATCH'' (UpdateTranscript pg tg) None (Some (PDict [(field, S v)])) hdrs"
  have "snd (update_transcript_field self pg tg field v hdrs tr) = tr @ [?c]"
    by (simp add: update_transcript_field_def snd_bind_return make_request_trace)
  moreover have "field_patches [?c] = take 1 [(''PATCH'', Some (PDict [(field, S v)]))]"
    by (simp add: field_patches_def)
  ultimately show "\<exists>new n.
      snd (update_transcript_field self pg tg field v hdrs tr) = tr @ new
      \<and> n \<le> length [(''PATCH'', Some (PDict [(field, S v)]))]
      \<and> field_patches new = take n [(''PATCH'', Some (PDict [(field, S v)]))]
      \<and> (\<not> isl (fst (update_transcript_field self pg tg field v hdrs tr)) \<longrightarrow>
          n = length [(''PATCH'', Some (PDict [(field, S v)]))])"
    by (intro exI [of _ "[?c]"] exI [of _ 1]) simp
qed

lemma patching_update_fields:
  "patching (concat (map (\<lambda>(field, v). section_update field (\<lambda>t. t) v) fs))
     (update_fields self pg tg hdrs fs)"
proof (induction fs)
  case Nil
  show ?case by (simp add: patching_return del: io_app)
next
  case (Cons fv fs)
  obtain field v where fv: "fv = (field, v)" by (cases fv)
  have one: "patching (section_update field (\<lambda>t. t) v)
      (case v of
         None \<Rightarrow> io_return ()
       | Some text \<Rightarrow>
           if text = [] then io_return ()
           else update_transcript_field self pg tg field text hdrs)"
    by (cases v)
      (simp_all add: section_update_def patching_return patching_update_field del: io_app)
  show ?case
    using patching_bind [OF one, of _ "\<lambda>_. update_fields self pg tg hdrs fs"] Cons.IH
    by (simp add: fv)
qed

lemma section_update_formatted:
  "section_update field (\<lambda>t. t) (format_rich_text v) = section_update field rich_text v"
  by (cases v)
    (simp_all add: section_update_def format_rich_text_def rich_text_def rich_text_open_def)

lemma soap_fields_updates:
  "concat (map (\<lambda>(field, v). section_update field (\<lambda>t. t) v) (soap_fields req)) =
     section_updates req"
  by (simp add: soap_fields_def section_updates_def section_update_formatted)

lemma patching_soap_notes_of: "patching (section_updates req) (soap_notes_of self req hdrs p)"
  unfolding soap_notes_of_def
  apply (rule patching_then, rule patching_silent, rule issues_soap_facility, simp)
  apply (rule patching_then, rule patching_silent, rule issues_soap_transcript, simp, simp)
  apply (rule patching_then, rule patching_silent)
   apply (intro issues_intros issues_health_concern; simp)
  apply (rule patching_first)
   apply (subst soap_fields_updates [symmetric], rule patching_update_fields)
  apply (rule patching_silent)
  apply (intro issues_intros issues_care_plan issues_process_medications; simp)
  done

lemma patching_create_soap_notes: "patching (section_updates req) (create_soap_notes self req)"
  unfolding create_soap_notes_def Let_def
  by (rule patching_then, rule patching_silent, rule issues_participant_guid_of, simp)
    (rule patching_soap_notes_of)








section \<open>Properties\<close>

subsection \<open>The interaction screen of a medication\<close>

text \<open>
  C1 fails on the code. The screen of the first medication answers with a non-empty
  \<^verbatim>\<open>drugAllergyAlerts\<close> and without the two other lists. The test of the alerts reads
  the lists with \<^verbatim>\<open>get\<close> and is true; the detail of the error reads them by
  subscript, so \<^verbatim>\<open>process_medications\<close> raises \<^verbatim>\<open>KeyError\<close> in place of the safety
  block with status 400. No medication is added and the second medication is not
  searched: the search and the screen of the first one are the only requests.
\<close>

theorem missing_alert_list_raises_key_error:
  "process_medications (example_env allergy_world) (JStr ''patient-1'') (JStr ''transcript-1'')
     [amoxicillin_request, ibuprofen_request] None (setup_headers (example_env allergy_world)) []
   = (Inl (KeyError ''drugInteractionAlerts''),
      [request ''GET'' (SearchDrug ''amox'') None None (setup_headers (example_env allergy_world)),
       request ''POST'' (DrugInteractions (JStr ''patient-1'')) None
         (Some (PDict [(''drugInputs'',
            Json (JArr [JObj [(''drugName'', JStr ''Amoxicillin 500 MG''),
              (''ndc'', JStr ''00093310905''),
              (''doseForm'', JStr ''Capsule''), (''genericName'', JStr ''amoxicillin''),
              (''isGeneric'', JBool True), (''isMedicalSupply'', JBool False),
              (''productStrength'', JStr ''500 mg''), (''route'', JStr ''oral''),
              (''rxNormCui'', JStr ''308191''), (''tradeName'', JStr ''Amoxil''),
              (''patientPracticeGuid'', JStr ''patient-1'')]]))]))
         (setup_headers (example_env allergy_world))])"
  by (simp add: process_medications_def medication_provider_def process_medication_def
      run_defs allergy_world_def amoxicillin_request_def ibuprofen_request_def amoxicillin_def
      drug_matches_def lower_char_def alert_keys_def)

text \<open>
  When the answer of the screen has all three lists and one of them is true, the loop
  stops at that medication with the safety block, status 400, whose detail carries the
  three lists as they were received; the screen is the last request.
\<close>

lemma safety_block_raised:
  assumes search: "make_request self
        (request ''GET'' (SearchDrug (searchCriteria med)) None None hdrs) tr
        = (Inr drug_data, tr1)"
    and matched: "and_then (py_iter drug_data) (py_next (drug_matches med)) = Inr (JObj drug)"
    and name: "map_of drug ''drugName'' = Some drug_name"
    and screen: "make_request self
        (request ''POST'' (DrugInteractions pg) None
           (Some (PDict [(''drugInputs'',
                          Json (JArr [JObj (AList.update ''patientPracticeGuid'' pg drug)]))]))
           hdrs) tr1
        = (Inr (JObj alerts), tr2)"
    and lists: "map_of alerts ''drugInteractionAlerts'' = Some interactions"
      "map_of alerts ''drugAllergyAlerts'' = Some allergies"
      "map_of alerts ''drugAlertErrors'' = Some alert_errors"
    and alert: "py_truthy interactions \<or> py_truthy allergies \<or> py_truthy alert_errors"
  shows "process_medications_loop self pg tg prov hdrs (med # rest) tr =
           (Inl (safety_block drug_name interactions allergies alert_errors), tr2)"
proof -
  have "drug \<noteq> []"
    using name by auto
  moreover have "any_get (JObj alerts) alert_keys = Inr True"
    using lists alert by (auto simp: alert_keys_def)
  ultimately have "process_medication self pg tg prov hdrs med tr =
      (Inl (safety_block drug_name interactions allergies alert_errors), tr2)"
    using search matched name screen lists
    by (simp add: process_medication_def io_bind_Inr)
  then show ?thesis
    by (simp add: io_bind_Inl)
qed

subsection \<open>Appointment creation and the conflict check\<close>

text \<open>
  C2. When the lookups of \<^verbatim>\<open>create_appointment\<close> have returned their identifiers, the
  next request is the conflict check: a \<^verbatim>\<open>GET\<close> of the conflicts endpoint whose parameters
  are the resolved provider and facility and the start and end of the appointment, both
  formatted to the minute by \<^verbatim>\<open>strftime("%Y-%m-%dT%H:%M")\<close>. If the answer has a true
  \<^verbatim>\<open>conflictsExist\<close>, the operation raises \<^verbatim>\<open>HTTPException\<close> with status 400 and the
  conflict check is its last request; otherwise the \<^verbatim>\<open>POST\<close> of the create endpoint
  follows the check at once. The lookups themselves make no request to the conflicts or
  the create endpoint, so no create request comes before the check.
\<close>

theorem conflict_blocks_creation:
  fixes self :: env and req :: AppointmentRequest
  defines "hdrs \<equiv> setup_headers self"
  assumes participants: "schedulerEventParticipants req = patient # others"
    and end_at: "endAtDateTimeUtc req = Some end_at"
    and resolved: "resolve_appointment self req patient hdrs tr = (Inr ids, tr1)"
    and checked: "make_request self
        (request ''GET'' Conflicts
           (Some (PDict [(''providerGuid'', Json (provider_guid ids)),
                         (''facilityGuid'', Json (facility_guid ids)),
                         (''startDateTimeFlt'',
                          Text [Strftime ''%Y-%m-%dT%H:%M'' (startAtDateTimeUtc req)]),
                         (''endDateTimeFlt'', Text [Strftime ''%Y-%m-%dT%H:%M'' end_at])]))
           None hdrs) tr1 = (Inr data, tr2)"
    and flag: "py_get data ''conflictsExist'' (JBool False) = Inr flag"
  shows "(py_truthy flag \<longrightarrow>
           create_appointment self req tr =
             (Inl (HTTPException 400
                     (S ''Conflicts exist with the selected time. Please select a different time.'')),
              tr1 @ [request ''GET'' Conflicts
                       (Some (PDict [(''providerGuid'', Json (provider_guid ids)),
                                     (''facilityGuid'', Json (facility_guid ids)),
                                     (''startDateTimeFlt'',
                                      Text [Strftime ''%Y-%m-%dT%H:%M''
                                              (startAtDateTimeUtc req)]),
                                     (''endDateTimeFlt'',
                                      Text [Strftime ''%Y-%m-%dT%H:%M'' end_at])]))
                       None hdrs]))
       \<and> (\<not> py_truthy flag \<longrightarrow>
           snd (create_appointment self req tr) =
             tr1 @ [request ''GET'' Conflicts
                      (Some (PDict [(''providerGuid'', Json (provider_guid ids)),
                                    (''facilityGuid'', Json (facility_guid ids)),
                                    (''startDateTimeFlt'',
                                     Text [Strftime ''%Y-%m-%dT%H:%M''
                                             (startAtDateTimeUtc req)]),
                                    (''endDateTimeFlt'',
                                     Text [Strftime ''%Y-%m-%dT%H:%M'' end_at])]))
                      None hdrs,
                    request ''POST'' CreateAppointment None
                      (Some (appointment_payload req patient ids end_at
                               (case paymentDate req of Some d \<Rightarrow> d
                                | None \<Rightarrow> clock self (length tr1))))
                      hdrs])
       \<and> list_all (\<lambda>c. url c \<noteq> Conflicts \<and> url c \<noteq> CreateAppointment)
           (drop (length tr) tr1)"
proof -
  let ?cq = "conflicts_request (provider_guid ids) (facility_guid ids) (startAtDateTimeUtc req)
               end_at (setup_headers self)"
  let ?pay = "case paymentDate req of Some d \<Rightarrow> d | None \<Rightarrow> clock self (length tr1)"
  have checked': "make_request self ?cq tr1 = (Inr data, tr2)"
    using checked by (simp add: conflicts_request_def hdrs_def)
  have tr2: "tr2 = tr1 @ [?cq]"
    using checked' make_request_trace [of self ?cq tr1] by simp
  have pay: "(case paymentDate req of Some d \<Rightarrow> io_return d | None \<Rightarrow> now self) tr1 =
      (Inr ?pay, tr1)"
    by (simp add: now_def split: option.split)
  have check: "check_for_conflicts self (provider_guid ids) (facility_guid ids)
      (startAtDateTimeUtc req) end_at tr1 =
      (if py_truthy flag then (Inl conflict_error, tr2) else (Inr True, tr2))"
    using checked' flag by (simp add: check_for_conflicts_def io_bind_Inr)
  have body: "create_appointment self req tr =
      io_bind (check_for_conflicts self (provider_guid ids) (facility_guid ids)
                 (startAtDateTimeUtc req) end_at)
        (\<lambda>_. io_bind (make_request self
                 (create_appointment_request req patient ids end_at ?pay (setup_headers self)))
                (\<lambda>r. io_return (Json r))) tr1"
    using participants end_at resolved pay
    by (simp add: create_appointment_def Let_def io_bind_Inr hdrs_def)
  have conflict: "py_truthy flag \<Longrightarrow> create_appointment self req tr = (Inl conflict_error, tr2)"
    using check by (simp add: body io_bind_def)
  have free: "\<not> py_truthy flag \<Longrightarrow> snd (create_appointment self req tr) =
      tr2 @ [create_appointment_request req patient ids end_at ?pay (setup_headers self)]"
    using check
    by (simp add: body io_bind_Inr snd_bind_return make_request_trace)
  have "list_all (\<lambda>c. endpoint_key (url c) \<in>
            {''appointment_types'', ''search_patient'', ''provider'', ''facility''})
          (new_calls (resolve_appointment self req patient (setup_headers self)) tr)"
    by (rule issues_new_calls) (rule issues_resolve_appointment, simp)
  then have lookups: "list_all (\<lambda>c. url c \<noteq> Conflicts \<and> url c \<noteq> CreateAppointment)
      (drop (length tr) tr1)"
    using resolved by (auto simp: new_calls_def hdrs_def list_all_iff)
  show ?thesis
    using conflict free lookups
    by (simp add: tr2 conflicts_request_def conflict_error_def create_appointment_request_def
        hdrs_def)
qed

text \<open>
  Witness for C2: Jane Doe's wellness exam at a time the remote system reports as taken.
  The adapter asks for the appointment types, searches the patient, checks the slot of the
  default provider and facility, and stops with the conflict error.
\<close>

theorem conflict_blocks_creation_witness:
  "create_appointment (example_env busy_world) booked_appointment [] =
     (Inl (HTTPException 400
             (S ''Conflicts exist with the selected time. Please select a different time.'')),
      [request ''GET'' AppointmentTypes None None (setup_headers (example_env busy_world)),
       request ''POST'' SearchPatient None
         (Some (PDict [(''matchAll'', B True), (''firstName'', S ''Jane''),
                       (''lastName'', S ''Doe'')]))
         (setup_headers (example_env busy_world)),
       request ''GET'' Conflicts
         (Some (PDict [(''providerGuid'', S ''d744609f-1bab-4e11-89bd-680e8d19a397''),
                       (''facilityGuid'', S ''68cc1f4c-0378-424f-9d12-e3ee0ab9b4be''),
                       (''startDateTimeFlt'',
                        Text [Strftime ''%Y-%m-%dT%H:%M''
                                \<lparr>ticks = 63852832800000000, utcoffset = Some 0\<rparr>]),
                       (''endDateTimeFlt'',
                        Text [Strftime ''%Y-%m-%dT%H:%M''
                                \<lparr>ticks = 63852834600000000, utcoffset = Some 0\<rparr>])]))
         None (setup_headers (example_env busy_world))])"
proof -
  let ?self = "example_env busy_world"
  let ?ids = "\<lparr>appointment_type_guid = JStr ''type-1'', patient_id = JStr ''patient-1'',
               provider_guid = JStr default_provider_guid,
               facility_guid = JStr default_facility_guid,
               practice_guid = JStr default_practice_guid\<rparr>"
  let ?tr1 = "[request ''GET'' AppointmentTypes None None (setup_headers ?self),
               request ''POST'' SearchPatient None
                 (Some (PDict [(''matchAll'', B True), (''firstName'', S ''Jane''),
                               (''lastName'', S ''Doe'')]))
                 (setup_headers ?self)]"
  let ?end = "example_start\<lparr>ticks := 63852834600000000\<rparr>"
  let ?cq = "request ''GET'' Conflicts
      (Some (PDict [(''providerGuid'', Json (provider_guid ?ids)),
                    (''facilityGuid'', Json (facility_guid ?ids)),
                    (''startDateTimeFlt'',
                     Text [Strftime ''%Y-%m-%dT%H:%M'' (startAtDateTimeUtc booked_appointment)]),
                    (''endDateTimeFlt'', Text [Strftime ''%Y-%m-%dT%H:%M'' ?end])]))
      None (setup_headers ?self)"
  have h1: "schedulerEventParticipants booked_appointment = jane # []"
    by (simp add: booked_appointment_def example_appointment_def)
  have h2: "endAtDateTimeUtc booked_appointment = Some ?end"
    by (simp add: booked_appointment_def)
  have h3: "resolve_appointment ?self booked_appointment jane (setup_headers ?self) [] =
      (Inr ?ids, ?tr1)"
    by (simp add: resolve_appointment_def run_defs busy_world_def booked_appointment_def
        example_appointment_def jane_def appointment_provider_def appointment_facility_def)
  have h4: "make_request ?self ?cq ?tr1 =
      (Inr (JObj [(''conflictsExist'', JBool True)]), ?tr1 @ [?cq])"
    by (simp add: run_defs busy_world_def)
  have h5: "py_get (JObj [(''conflictsExist'', JBool True)]) ''conflictsExist'' (JBool False)
      = Inr (JBool True)"
    by simp
  show ?thesis
    using conflict_blocks_creation [OF h1 h2 h3 h4 h5]
    by (simp add: booked_appointment_def example_appointment_def example_start_def
        default_provider_guid_def default_facility_guid_def)
qed

subsection \<open>Inputs of identifier shape\<close>

text \<open>
  Counterexample to C3 as stated: \<^verbatim>\<open>create_appointment\<close> takes its provider by name
  only. Given a provider of identifier shape, which is the identifier of a provider the
  remote system lists, it still fetches the list of providers, finds no provider of that
  name, and fails with status 404.
\<close>

theorem appointment_provider_identifier_looked_up:
  "is_guid guid_shaped
   \<and> create_appointment (example_env clinic_world)
        (booked_appointment\<lparr>lastModifiedByProvider := Some guid_shaped\<rparr>) [] =
       (Inl (HTTPException 404 (S ''Provider not found.'')),
        [request ''GET'' AppointmentTypes None None (setup_headers (example_env clinic_world)),
         request ''POST'' SearchPatient None
           (Some (PDict [(''matchAll'', B True), (''firstName'', S ''Jane''),
                         (''lastName'', S ''Doe'')]))
           (setup_headers (example_env clinic_world)),
         request ''GET'' Provider None None (setup_headers (example_env clinic_world))])"
  by (simp add: is_guid_def guid_shaped_def create_appointment_def resolve_appointment_def
      run_defs clinic_world_def booked_appointment_def example_appointment_def jane_def
      appointment_provider_def Let_def)

text \<open>
  C3, amended. Where an operation takes a name or an identifier (the patient of
  \<^verbatim>\<open>get_encounters\<close> and \<^verbatim>\<open>create_soap_notes\<close>, the facility of
  \<^verbatim>\<open>create_soap_notes\<close>, the provider of \<^verbatim>\<open>process_medications\<close>), an input of
  identifier shape is returned as the identifier without any request: \<^verbatim>\<open>get_encounters\<close>
  makes its single request with it, and \<^verbatim>\<open>create_soap_notes\<close> makes no request to the
  list of facilities, or of providers, when the facility, or the provider, has that shape.
\<close>

theorem identifier_passes_through:
  assumes "is_guid g"
  shows "participant_guid_of self g hdrs tr = (Inr (JStr g), tr)
       \<and> soap_facility self (Some g) hdrs tr = (Inr (JStr g), tr)
       \<and> medication_provider self (Some g) hdrs tr = (Inr (JStr g), tr)
       \<and> snd (get_encounters self g tr) =
           tr @ [request ''GET'' (TranscriptSummaries (JStr g)) None None (setup_headers self)]
       \<and> (facilityNameOrGuid req = Some g \<longrightarrow>
           list_all (\<lambda>c. endpoint_key (url c) \<noteq> ''facility'')
             (new_calls (create_soap_notes self req) tr))
       \<and> (providerNameOrGuid req = Some g \<longrightarrow>
           list_all (\<lambda>c. endpoint_key (url c) \<noteq> ''provider'')
             (new_calls (create_soap_notes self req) tr))"
proof -
  have nonempty: "g \<noteq> []"
    using assms by (rule is_guid_nonempty)
  have patient: "participant_guid_of self g hdrs tr = (Inr (JStr g), tr)"
    using assms by (simp add: participant_guid_of_def)
  have facility: "soap_facility self (Some g) hdrs tr = (Inr (JStr g), tr)"
    using assms nonempty by (simp add: soap_facility_def)
  have provider: "medication_provider self (Some g) hdrs tr = (Inr (JStr g), tr)"
    using assms nonempty by (simp add: medication_provider_def)
  have encounters: "snd (get_encounters self g tr) =
      tr @ [request ''GET'' (TranscriptSummaries (JStr g)) None None (setup_headers self)]"
    using assms
    by (simp add: get_encounters_def Let_def participant_guid_of_def snd_bind_return
        make_request_trace)
  have no_facility: "list_all (\<lambda>c. endpoint_key (url c) \<noteq> ''facility'')
      (new_calls (create_soap_notes self req) tr)" if "facilityNameOrGuid req = Some g"
  proof (rule new_calls_avoid)
    show "issues (soap_keys \<union> {''search_patient'', ''provider''})
        (create_soap_notes self req)"
      by (rule issues_create_soap_notes) (use that assms in \<open>simp_all add: subset_insertI2\<close>)
    show "''facility'' \<notin> soap_keys \<union> {''search_patient'', ''provider''}"
      by (simp add: soap_keys_def)
  qed
  have no_provider: "list_all (\<lambda>c. endpoint_key (url c) \<noteq> ''provider'')
      (new_calls (create_soap_notes self req) tr)" if "providerNameOrGuid req = Some g"
  proof (rule new_calls_avoid)
    show "issues (soap_keys \<union> {''search_patient'', ''facility''})
        (create_soap_notes self req)"
      by (rule issues_create_soap_notes) (use that assms in \<open>simp_all add: subset_insertI2\<close>)
    show "''provider'' \<notin> soap_keys \<union> {''search_patient'', ''facility''}"
      by (simp add: soap_keys_def)
  qed
  from patient facility provider encounters no_facility no_provider show ?thesis
    by blast
qed

text \<open>Witness for C3, amended: \<^verbatim>\<open>get_encounters\<close> for an identifier.\<close>

theorem identifier_passes_through_witness:
  "snd (get_encounters (example_env silent_world) guid_shaped []) =
     [request ''GET'' (TranscriptSummaries (JStr guid_shaped)) None None
        (setup_headers (example_env silent_world))]"
proof -
  have "is_guid guid_shaped"
    by (simp add: is_guid_def guid_shaped_def)
  from identifier_passes_through [OF this, of "example_env silent_world" _ "[]"]
  show ?thesis by simp
qed

text \<open>
  C10. \<^verbatim>\<open>is_guid\<close> accepts exactly the strings of 36 characters of which exactly four
  are hyphens, wherever the hyphens stand and whatever the other characters are. So for
  any patient of that shape \<^verbatim>\<open>create_soap_notes\<close> continues with the string itself as
  the identifier of the patient and never searches for a patient.
\<close>

theorem is_guid_shape_only:
  "(is_guid v \<longleftrightarrow> length v = 36 \<and> length (filter (\<lambda>c. c = CHR ''-'') v) = 4)
   \<and> (is_guid (patientNameOrParticipantGuid req) \<longrightarrow>
        create_soap_notes self req tr =
          soap_notes_of self req (setup_headers self)
            (JStr (patientNameOrParticipantGuid req)) tr
        \<and> list_all (\<lambda>c. endpoint_key (url c) \<noteq> ''search_patient'')
            (new_calls (create_soap_notes self req) tr))"
proof -
  have "filter ((=) (CHR ''-'')) v = filter (\<lambda>c. c = CHR ''-'') v"
    by (rule filter_cong) auto
  then have shape:
    "is_guid v \<longleftrightarrow> length v = 36 \<and> length (filter (\<lambda>c. c = CHR ''-'') v) = 4"
    by (simp add: is_guid_def count_list_eq_length_filter)
  have skipped: "create_soap_notes self req tr =
      soap_notes_of self req (setup_headers self) (JStr (patientNameOrParticipantGuid req)) tr"
    if "is_guid (patientNameOrParticipantGuid req)"
    using that by (simp add: create_soap_notes_def Let_def participant_guid_of_def)
  have silent: "list_all (\<lambda>c. endpoint_key (url c) \<noteq> ''search_patient'')
      (new_calls (create_soap_notes self req) tr)"
    if "is_guid (patientNameOrParticipantGuid req)"
  proof (rule new_calls_avoid)
    show "issues (soap_keys \<union> {''facility'', ''provider''}) (create_soap_notes self req)"
      by (rule issues_create_soap_notes) (use that in \<open>simp_all add: subset_insertI2\<close>)
    show "''search_patient'' \<notin> soap_keys \<union> {''facility'', ''provider''}"
      by (simp add: soap_keys_def)
  qed
  from shape skipped silent show ?thesis by blast
qed

text \<open>
  Witness for C10: a patient given as a name with a date of birth has 36 characters and
  four hyphens; the section update is sent to the transcript of a patient with that
  string as identifier.
\<close>

theorem is_guid_shape_only_witness:
  "is_guid name_of_guid_shape
   \<and> create_soap_notes (example_env clinic_world)
        (soap_update\<lparr>patientNameOrParticipantGuid := name_of_guid_shape\<rparr>) [] =
       (Inr (PDict [(''status'', B True),
                    (''message'',
                     Text [Lit ''Encounter transcript with id: '', StrOf (JStr ''transcript-1''),
                           Lit '' updated successfully''])]),
        [request ''PATCH''
           (UpdateTranscript (JStr name_of_guid_shape) (JStr ''transcript-1'')) None
           (Some (PDict [(''chiefComplaintNote'', S ''cough'')]))
           (setup_headers (example_env clinic_world))])"
proof -
  let ?req = "soap_update\<lparr>patientNameOrParticipantGuid := name_of_guid_shape\<rparr>"
  have shaped: "is_guid name_of_guid_shape"
    by (simp add: is_guid_def name_of_guid_shape_def)
  then have "is_guid (patientNameOrParticipantGuid ?req)"
    by simp
  with is_guid_shape_only [of _ ?req "example_env clinic_world" "[]"]
  have "create_soap_notes (example_env clinic_world) ?req [] =
      soap_notes_of (example_env clinic_world) ?req (setup_headers (example_env clinic_world))
        (JStr name_of_guid_shape) []"
    by simp
  then show ?thesis
    using shaped
    by (simp add: soap_notes_of_def soap_update_def soap_facility_def soap_transcript_def
        truthy_str_def opt_str_def soap_fields_def format_rich_text_def
        update_transcript_field_def soap_message_def run_defs clinic_world_def)
qed

subsection \<open>Names that match nothing\<close>




text \<open>
  The patient lookup of \<^verbatim>\<open>upload_document\<close> is not among them: without a match it
  raises \<^verbatim>\<open>TypeError\<close>, from the call that was to make the error with status 404.
\<close>

lemma upload_document_patient_type_error:
  assumes "make_request self (patient_search f l (setup_headers self)) tr = (Inr resp, tr')"
    and "py_get resp ''patients'' JNull = Inr ps" and "py_len ps = Inr 0"
  shows "upload_document_patient self f l tr = (Inl TypeError, tr')"
  using assms
  by (simp add: upload_document_patient_def Let_def patient_search_def io_bind_Inr)

subsection \<open>The sections of a SOAP note\<close>

text \<open>
  Counterexample to C5 as stated: the chief complaint \<^verbatim>\<open>cough\<close> is sent in its
  field-patch request as it is, without the rich-text wrapper.
\<close>

theorem chief_complaint_sent_unwrapped:
  "snd (create_soap_notes (example_env clinic_world) soap_update []) =
     [request ''PATCH'' (UpdateTranscript (JStr guid_shaped) (JStr ''transcript-1'')) None
        (Some (PDict [(''chiefComplaintNote'', S ''cough'')]))
        (setup_headers (example_env clinic_world))]
   \<and> ''cough'' \<noteq> rich_text_open @ ''cough'' @ rich_text_close"
  by (simp add: create_soap_notes_def Let_def participant_guid_of_def is_guid_def
      guid_shaped_def soap_notes_of_def soap_update_def soap_facility_def soap_transcript_def
      truthy_str_def opt_str_def soap_fields_def format_rich_text_def
      update_transcript_field_def soap_message_def run_defs clinic_world_def
      rich_text_open_def)

text \<open>
  C5, amended. Whatever the remote system answers, the field-patch requests of
  \<^verbatim>\<open>create_soap_notes\<close> are, in this order, \<^verbatim>\<open>PATCH\<close> requests for the sections that
  are neither absent nor empty: the chief complaint as it was given, then the subjective,
  objective, assessment and plan notes, each inside the rich-text wrapper. An absent or
  empty section has no request. An operation that fails has sent a first part of these
  requests; one that succeeds has sent all of them.
\<close>

theorem sections_sent:
  "field_patches (new_calls (create_soap_notes self req) tr) =
     take (length (field_patches (new_calls (create_soap_notes self req) tr)))
       (section_updates req)
   \<and> (\<not> isl (fst (create_soap_notes self req tr)) \<longrightarrow>
        field_patches (new_calls (create_soap_notes self req) tr) = section_updates req)"
proof -
  from patching_create_soap_notes [of req self]
  obtain new n where new: "snd (create_soap_notes self req tr) = tr @ new"
    and n: "n \<le> length (section_updates req)"
    and sent: "field_patches new = take n (section_updates req)"
    and ok: "\<not> isl (fst (create_soap_notes self req tr)) \<longrightarrow> n = length (section_updates req)"
    unfolding patching_def by blast
  have calls: "new_calls (create_soap_notes self req) tr = new"
    by (simp add: new_calls_def new)
  have "length (field_patches new) = n"
    using sent n by simp
  with sent ok show ?thesis
    by (simp add: calls)
qed

text \<open>
  Witness for C5, amended: a chief complaint, a subjective note and an empty plan give two
  field-patch requests, the second one wrapped.
\<close>

theorem sections_sent_witness:
  "field_patches (new_calls (create_soap_notes (example_env clinic_world) soap_sections) []) =
     [(''PATCH'', Some (PDict [(''chiefComplaintNote'', S ''cough'')])),
      (''PATCH'',
       Some (PDict [(''subjectiveNote'',
                     S (rich_text_open @ ''dry cough at night'' @ rich_text_close))]))]"
proof -
  have "\<not> isl (fst (create_soap_notes (example_env clinic_world) soap_sections []))"
    by (simp add: create_soap_notes_def Let_def participant_guid_of_def is_guid_def
        guid_shaped_def soap_notes_of_def soap_sections_def soap_update_def soap_facility_def
        soap_transcript_def truthy_str_def opt_str_def soap_fields_def format_rich_text_def
        update_transcript_field_def soap_message_def run_defs clinic_world_def)
  with sections_sent [of "example_env clinic_world" soap_sections "[]"]
  show ?thesis
    by (simp add: section_updates_def section_update_def soap_sections_def soap_update_def
        rich_text_def)
qed

subsection \<open>The end of an appointment\<close>

text \<open>
  C6. For a request without an end time, the constructor returns whenever thirty minutes
  after the start is still a \<^verbatim>\<open>datetime\<close>, and the request it returns has the start it
  was given and, as its end, that start moved on by thirty minutes (in microseconds), with
  the same \<^verbatim>\<open>tzinfo\<close>.
\<close>

theorem default_end_time:
  assumes "endAtDateTimeUtc req = None"
  shows "(0 \<le> ticks (startAtDateTimeUtc req) + 30 * 60 * 1000000
          \<and> ticks (startAtDateTimeUtc req) + 30 * 60 * 1000000 \<le> datetime_max_ticks
          \<longrightarrow> AppointmentRequest_init req =
                Inr (req\<lparr>endAtDateTimeUtc :=
                          Some ((startAtDateTimeUtc req)
                                  \<lparr>ticks := ticks (startAtDateTimeUtc req) + 30 * 60 * 1000000\<rparr>)\<rparr>))
       \<and> (AppointmentRequest_init req = Inr r
          \<longrightarrow> startAtDateTimeUtc r = startAtDateTimeUtc req
              \<and> endAtDateTimeUtc r =
                  Some ((startAtDateTimeUtc r)
                          \<lparr>ticks := ticks (startAtDateTimeUtc r) + 30 * 60 * 1000000\<rparr>))"
  using assms
  by (auto simp: AppointmentRequest_init_def datetime_add_def timedelta_minutes_def Let_def
      split: if_splits)

text \<open>Witness for C6: a start at 2024-06-01T10:00 gives an end at 10:30.\<close>

theorem default_end_time_witness:
  "AppointmentRequest_init example_appointment = Inr booked_appointment"
proof -
  have "endAtDateTimeUtc example_appointment = None"
    by (simp add: example_appointment_def)
  from default_end_time [OF this, of example_appointment] show ?thesis
    by (simp add: example_appointment_def booked_appointment_def example_start_def
        datetime_max_ticks_def)
qed

text \<open>
  Counterexample to C7 as stated: a request whose caller gives an end one hour before the
  start is constructed as it is, and its start is not at or before its end.
\<close>

theorem supplied_end_before_start:
  "AppointmentRequest_init backwards_appointment = Inr backwards_appointment
   \<and> endAtDateTimeUtc backwards_appointment = Some (example_start\<lparr>ticks := 63852829200000000\<rparr>)
   \<and> datetime_le (startAtDateTimeUtc backwards_appointment)
        (example_start\<lparr>ticks := 63852829200000000\<rparr>) = Inr False"
  by (simp add: AppointmentRequest_init_def backwards_appointment_def example_appointment_def
      example_start_def datetime_le_def)

text \<open>
  C7, amended. An end time derived by the constructor is at or after the start; an end
  time given by the caller is kept as it is, and the constructor compares it with nothing.
\<close>

theorem derived_end_not_before_start:
  assumes "AppointmentRequest_init req = Inr r"
  shows "(endAtDateTimeUtc req = None \<longrightarrow>
           (case endAtDateTimeUtc r of
              Some e \<Rightarrow> datetime_le (startAtDateTimeUtc r) e
            | None \<Rightarrow> Inl AttributeError) = Inr True)
       \<and> (endAtDateTimeUtc req \<noteq> None \<longrightarrow> r = req)"
  using assms
  by (auto simp: AppointmentRequest_init_def datetime_add_def timedelta_minutes_def Let_def
      datetime_le_def split: if_splits option.splits)

text \<open>Witness for C7, amended: the derived end of the example request.\<close>

theorem derived_end_not_before_start_witness:
  "(case endAtDateTimeUtc booked_appointment of
      Some e \<Rightarrow> datetime_le (startAtDateTimeUtc booked_appointment) e
    | None \<Rightarrow> Inl AttributeError) = Inr True"
proof -
  have init: "AppointmentRequest_init example_appointment = Inr booked_appointment"
    by (simp add: AppointmentRequest_init_def example_appointment_def booked_appointment_def
        datetime_add_def timedelta_minutes_def example_start_def datetime_max_ticks_def)
  from derived_end_not_before_start [OF init] show ?thesis
    by (simp add: example_appointment_def)
qed

subsection \<open>The classification of responses\<close>

text \<open>
  Counterexamples to C8 as stated. A response with status 501 fails with a downstream
  server error whose status is 501 again, the status of the response. A response with
  status 502 whose body has a string as its \<^verbatim>\<open>error\<close> fails with \<^verbatim>\<open>AttributeError\<close>,
  raised by \<^verbatim>\<open>get\<close> on the string, and with no downstream server error.
\<close>

theorem downstream_error_exceptions:
  "handle_response (example_env silent_world)
     \<lparr>status = 501, body = Some (JObj [(''error'', JObj [(''message'', JStr ''Not Implemented'')])])\<rparr>
   = Inl (IntegrationAPIError ''practicefusion''
            [Lit ''Downstream server error (translated to HTTP 501): '',
             StrOf (JStr ''Not Implemented'')]
            501 (JStr ''501''))
   \<and> handle_response (example_env silent_world)
       \<lparr>status = 502, body = Some (JObj [(''error'', JStr ''Bad Gateway'')])\<rparr>
     = Inl AttributeError"
  by (simp add: handle_response_def example_env_def str_int_501)

text \<open>
  C8, amended. A response with status 500 or more whose body cannot be parsed, or is an
  object whose \<^verbatim>\<open>error\<close>, when it has one, is an object, fails with a downstream server
  error whose status is 501 whatever the status of the response was, so it differs from
  that status unless the response had status 501 itself. Its message is the fixed prefix
  followed by the message the response reports: the \<^verbatim>\<open>message\<close> of the \<^verbatim>\<open>error\<close> of
  the body, and \<^verbatim>\<open>Unknown error\<close> when there is none.
\<close>

theorem downstream_error_normalised:
  assumes "500 \<le> status r" and "error_readable r"
  shows "handle_response self r =
           Inl (IntegrationAPIError (integration_name self)
                  [Lit ''Downstream server error (translated to HTTP 501): '',
                   StrOf (original_message r)]
                  501 (original_code r))"
proof (cases "body r")
  case None
  with assms(1) show ?thesis
    by (simp add: handle_response_def synthetic_error_body_def original_message_def
        original_code_def)
next
  case (Some j)
  with assms(2) obtain entries where j: "j = JObj entries"
    by (cases j) (simp_all add: error_readable_def)
  show ?thesis
  proof (cases "map_of entries ''error''")
    case None
    with assms(1) Some j show ?thesis
      by (simp add: handle_response_def original_message_def original_code_def)
  next
    case (Some e)
    with assms(2) \<open>body r = Some j\<close> j obtain err where e: "e = JObj err"
      by (cases e) (simp_all add: error_readable_def)
    from assms(1) \<open>body r = Some j\<close> j Some e show ?thesis
      by (simp add: handle_response_def original_message_def original_code_def
          split: option.split)
  qed
qed

text \<open>Witness for C8, amended: two responses with status 503, one with a message and one
  whose body cannot be parsed.\<close>

theorem downstream_error_normalised_witness:
  "handle_response (example_env silent_world)
     \<lparr>status = 503, body = Some (JObj [(''error'', JObj [(''message'', JStr ''Service Unavailable'')])])\<rparr>
   = Inl (IntegrationAPIError ''practicefusion''
            [Lit ''Downstream server error (translated to HTTP 501): '',
             StrOf (JStr ''Service Unavailable'')]
            501 (JStr ''503''))
   \<and> handle_response (example_env silent_world) \<lparr>status = 503, body = None\<rparr>
     = Inl (IntegrationAPIError ''practicefusion''
              [Lit ''Downstream server error (translated to HTTP 501): '',
               StrOf (JStr ''Unknown error'')]
              501 (JStr ''503''))"
proof -
  let ?r = "\<lparr>status = 503,
             body = Some (JObj [(''error'', JObj [(''message'', JStr ''Service Unavailable'')])])\<rparr>"
  let ?u = "\<lparr>status = 503, body = None\<rparr> :: response"
  have r: "500 \<le> status ?r" "error_readable ?r"
    by (simp_all add: error_readable_def)
  have u: "500 \<le> status ?u" "error_readable ?u"
    by (simp_all add: error_readable_def)
  from downstream_error_normalised [OF r, of "example_env silent_world"]
    downstream_error_normalised [OF u, of "example_env silent_world"]
  show ?thesis
    by (simp add: example_env_def str_int_503 original_message_def original_code_def)
qed

text \<open>
  C9 fails on the code. A response with status 200 whose body cannot be parsed makes
  \<^verbatim>\<open>get_encounters\<close> return the substituted error body, with its generic message and the
  status as its code, as the content of a successful result.
\<close>

theorem synthetic_error_body_returned_as_success:
  "get_encounters (example_env silent_world) guid_shaped [] =
     (Inr (Json (JObj [(''error'', JObj [(''message'', JStr ''Unknown error''),
                                       (''code'', JStr ''200'')])])),
      [request ''GET'' (TranscriptSummaries (JStr guid_shaped)) None None
         (setup_headers (example_env silent_world))])"
  by (simp add: get_encounters_def participant_guid_of_def is_guid_def guid_shaped_def
      run_defs silent_world_def handle_response_def synthetic_error_body_def str_int_200)

end
